theory Spec2Isabelle
  imports Complex_Main "HOL-Library.Product_Lexorder"
begin

section \<open>Python values\<close>

text \<open>
  A Python \<open>str\<close> is a sequence of Unicode code points. \<open>ustr\<close> embeds an ASCII literal;
  a character outside ASCII is written as its code point, so the label with an
  E-acute (code point 201) between \<open>M\<close> and \<open>DIO\<close> is
  \<open>ustr ''M'' @ [201] @ ustr ''DIO''\<close>.
\<close>

type_synonym pystr = "nat list"

definition ustr :: "string \<Rightarrow> pystr" where
  "ustr s = map of_char s"

text \<open>
  The values that reach the explainer are the JSON-like values a worker passes on:
  \<open>None\<close>, booleans, unbounded integers, floats, strings, lists and dicts (in insertion
  order). A float is modelled by the real number that is its exact value, and a
  comparison compares these values, as Python compares floats with floats and with
  integers. A float literal is the double nearest to its decimal, so \<open>0.8\<close> and \<open>0.6\<close>
  are the constants \<open>double_0_8\<close> and \<open>double_0_6\<close> below and not \<open>4/5\<close> and \<open>3/5\<close>;
  \<open>1.0\<close> is exact. \<open>nan\<close> and the infinities are not represented.
\<close>

datatype pyval =
    PNone
  | PBool bool
  | PInt int
  | PFloat real
  | PStr pystr
  | PList "pyval list"
  | PDict "(pyval \<times> pyval) list"

text \<open>The exceptions the modelled code can raise; all are subclasses of \<open>Exception\<close>.\<close>

datatype py_error = AttributeError | TypeError | KeyError | ValueError | OverflowError

fun bind_r :: "'e + 'a \<Rightarrow> ('a \<Rightarrow> 'e + 'b) \<Rightarrow> 'e + 'b" where
  "bind_r (Inl e) f = Inl e"
| "bind_r (Inr x) f = f x"

text \<open>Truth value testing (\<open>if x\<close>, \<open>not x\<close>).\<close>

fun truthy :: "pyval \<Rightarrow> bool" where
  "truthy PNone = False"
| "truthy (PBool b) = b"
| "truthy (PInt n) = (n \<noteq> 0)"
| "truthy (PFloat r) = (r \<noteq> 0)"
| "truthy (PStr s) = (s \<noteq> [])"
| "truthy (PList xs) = (xs \<noteq> [])"
| "truthy (PDict kvs) = (kvs \<noteq> [])"

text \<open>\<open>d.get(k, default)\<close> for a string key: only a dict has the method.\<close>

fun dict_get :: "pyval \<Rightarrow> pystr \<Rightarrow> pyval \<Rightarrow> py_error + pyval" where
  "dict_get (PDict kvs) k d = Inr (case map_of kvs (PStr k) of None \<Rightarrow> d | Some v \<Rightarrow> v)"
| "dict_get PNone k d = Inl AttributeError"
| "dict_get (PBool b) k d = Inl AttributeError"
| "dict_get (PInt n) k d = Inl AttributeError"
| "dict_get (PFloat r) k d = Inl AttributeError"
| "dict_get (PStr s) k d = Inl AttributeError"
| "dict_get (PList xs) k d = Inl AttributeError"

text \<open>\<open>len(x)\<close>.\<close>

fun py_len :: "pyval \<Rightarrow> py_error + nat" where
  "py_len (PStr s) = Inr (length s)"
| "py_len (PList xs) = Inr (length xs)"
| "py_len (PDict kvs) = Inr (length kvs)"
| "py_len PNone = Inl TypeError"
| "py_len (PBool b) = Inl TypeError"
| "py_len (PInt n) = Inl TypeError"
| "py_len (PFloat r) = Inl TypeError"

text \<open>\<open>for x in v\<close>: a list yields its elements, a string its characters, a dict its keys.\<close>

fun py_iter :: "pyval \<Rightarrow> py_error + pyval list" where
  "py_iter (PList xs) = Inr xs"
| "py_iter (PStr s) = Inr (map (\<lambda>c. PStr [c]) s)"
| "py_iter (PDict kvs) = Inr (map fst kvs)"
| "py_iter PNone = Inl TypeError"
| "py_iter (PBool b) = Inl TypeError"
| "py_iter (PInt n) = Inl TypeError"
| "py_iter (PFloat r) = Inl TypeError"

text \<open>\<open>v.items()\<close>.\<close>

fun py_items :: "pyval \<Rightarrow> py_error + (pyval \<times> pyval) list" where
  "py_items (PDict kvs) = Inr kvs"
| "py_items PNone = Inl AttributeError"
| "py_items (PBool b) = Inl AttributeError"
| "py_items (PInt n) = Inl AttributeError"
| "py_items (PFloat r) = Inl AttributeError"
| "py_items (PStr s) = Inl AttributeError"
| "py_items (PList xs) = Inl AttributeError"

text \<open>Lists and dicts are unhashable: using one as a dictionary key raises \<open>TypeError\<close>.\<close>

fun hashable :: "pyval \<Rightarrow> bool" where
  "hashable (PList xs) = False"
| "hashable (PDict kvs) = False"
| "hashable PNone = True"
| "hashable (PBool b) = True"
| "hashable (PInt n) = True"
| "hashable (PFloat r) = True"
| "hashable (PStr s) = True"

text \<open>
  \<open>v >= c\<close> against a numeric literal: booleans, integers and floats compare by value,
  everything else raises \<open>TypeError\<close>.
\<close>

fun py_ge :: "pyval \<Rightarrow> real \<Rightarrow> py_error + bool" where
  "py_ge (PBool b) c = Inr (c \<le> (if b then 1 else 0))"
| "py_ge (PInt n) c = Inr (c \<le> real_of_int n)"
| "py_ge (PFloat r) c = Inr (c \<le> r)"
| "py_ge PNone c = Inl TypeError"
| "py_ge (PStr s) c = Inl TypeError"
| "py_ge (PList xs) c = Inl TypeError"
| "py_ge (PDict kvs) c = Inl TypeError"

text \<open>\<open>v * 100\<close>: numeric multiplication, or repetition of a sequence.\<close>

fun py_mul100 :: "pyval \<Rightarrow> py_error + pyval" where
  "py_mul100 (PBool b) = Inr (PInt ((if b then 1 else 0) * 100))"
| "py_mul100 (PInt n) = Inr (PInt (n * 100))"
| "py_mul100 (PFloat r) = Inr (PFloat (r * 100))"
| "py_mul100 (PStr s) = Inr (PStr (concat (replicate 100 s)))"
| "py_mul100 (PList xs) = Inr (PList (concat (replicate 100 xs)))"
| "py_mul100 PNone = Inl TypeError"
| "py_mul100 (PDict kvs) = Inl TypeError"

text \<open>\<open>'k' in v\<close> for a string \<open>k\<close>: key of a dict, element of a list, substring of a string.\<close>

fun starts_with :: "pystr \<Rightarrow> pystr \<Rightarrow> bool" where
  "starts_with [] ys = True"
| "starts_with (x # xs) [] = False"
| "starts_with (x # xs) (y # ys) = (x = y \<and> starts_with xs ys)"

fun is_substring :: "pystr \<Rightarrow> pystr \<Rightarrow> bool" where
  "is_substring xs [] = (xs = [])"
| "is_substring xs (y # ys) = (starts_with xs (y # ys) \<or> is_substring xs ys)"

fun py_in :: "pystr \<Rightarrow> pyval \<Rightarrow> py_error + bool" where
  "py_in k (PDict kvs) = Inr (map_of kvs (PStr k) \<noteq> None)"
| "py_in k (PList xs) = Inr (PStr k \<in> set xs)"
| "py_in k (PStr s) = Inr (is_substring k s)"
| "py_in k PNone = Inl TypeError"
| "py_in k (PBool b) = Inl TypeError"
| "py_in k (PInt n) = Inl TypeError"
| "py_in k (PFloat r) = Inl TypeError"

text \<open>\<open>v['k']\<close> for a string \<open>k\<close>: a dict returns the value or raises
  \<open>KeyError\<close>; a list or a string rejects a string index.\<close>

fun py_getitem :: "pyval \<Rightarrow> pystr \<Rightarrow> py_error + pyval" where
  "py_getitem (PDict kvs) k = (case map_of kvs (PStr k) of None \<Rightarrow> Inl KeyError | Some v \<Rightarrow> Inr v)"
| "py_getitem (PList xs) k = Inl TypeError"
| "py_getitem (PStr s) k = Inl TypeError"
| "py_getitem PNone k = Inl TypeError"
| "py_getitem (PBool b) k = Inl TypeError"
| "py_getitem (PInt n) k = Inl TypeError"
| "py_getitem (PFloat r) k = Inl TypeError"

text \<open>
  What the interpreter supplies: the built-in \<open>hash\<close> (salted per process for strings),
  the formatting of a number with \<open>:.1f\<close> (which may raise, for instance
  \<open>OverflowError\<close> on a huge integer), the decimal rendering of a length, and the
  wall-clock timestamp \<open>datetime.utcnow().isoformat()\<close>. The formatting receives the exact
  product \<open>confianca * 100\<close>; the rounding of a float product to a double is part of what
  it stands for.
\<close>

record ambiente =
  py_hash :: "pyval \<Rightarrow> int"
  formatar_1f :: "pyval \<Rightarrow> py_error + pystr"
  formatar_int :: "nat \<Rightarrow> pystr"
  utcnow_iso :: pystr

section \<open>The explainer (src/ml/explainer.py)\<close>

subsection \<open>Translation tables\<close>

record traducao =
  tr_simples :: pyval
  tr_avancado :: pyval
  tr_categoria :: pystr

definition TRADUCOES_ERROS :: "(pystr \<times> traducao) list" where
  "TRADUCOES_ERROS = [
    (ustr ''Primeiro d'' @ [237] @ ustr ''gito verificador do CNPJ inv'' @ [225] @ ustr ''lido'',
     \<lparr>tr_simples = PStr (ustr ''CNPJ do benefici'' @ [225] @ ustr ''rio incorreto''),
      tr_avancado = PStr (ustr ''Primeiro d'' @ [237] @ ustr ''gito verificador do CNPJ n'' @ [227] @ ustr ''o corresponde ao algoritmo da Receita Federal''),
      tr_categoria = ustr ''dados_beneficiario''\<rparr>),
    (ustr ''Segundo d'' @ [237] @ ustr ''gito verificador do CNPJ inv'' @ [225] @ ustr ''lido'',
     \<lparr>tr_simples = PStr (ustr ''CNPJ do benefici'' @ [225] @ ustr ''rio incorreto''),
      tr_avancado = PStr (ustr ''Segundo d'' @ [237] @ ustr ''gito verificador do CNPJ n'' @ [227] @ ustr ''o corresponde ao algoritmo da Receita Federal''),
      tr_categoria = ustr ''dados_beneficiario''\<rparr>),
    (ustr ''C'' @ [243] @ ustr ''digo de barras n'' @ [227] @ ustr ''o tem 44 d'' @ [237] @ ustr ''gitos'',
     \<lparr>tr_simples = PStr (ustr ''C'' @ [243] @ ustr ''digo de barras inv'' @ [225] @ ustr ''lido''),
      tr_avancado = PStr (ustr ''C'' @ [243] @ ustr ''digo de barras n'' @ [227] @ ustr ''o possui o tamanho padr'' @ [227] @ ustr ''o FEBRABAN (44 d'' @ [237] @ ustr ''gitos)''),
      tr_categoria = ustr ''codigo_barras''\<rparr>),
    (ustr ''DV do c'' @ [243] @ ustr ''digo de barras inv'' @ [225] @ ustr ''lido'',
     \<lparr>tr_simples = PStr (ustr ''C'' @ [243] @ ustr ''digo de barras adulterado''),
      tr_avancado = PStr (ustr ''D'' @ [237] @ ustr ''gito verificador do c'' @ [243] @ ustr ''digo de barras n'' @ [227] @ ustr ''o corresponde ao c'' @ [225] @ ustr ''lculo m'' @ [243] @ ustr ''dulo 11''),
      tr_categoria = ustr ''codigo_barras''\<rparr>),
    (ustr ''Valor inconsistente'',
     \<lparr>tr_simples = PStr (ustr ''Valor do boleto suspeito''),
      tr_avancado = PStr (ustr ''Valor informado n'' @ [227] @ ustr ''o corresponde ao valor codificado na linha digit'' @ [225] @ ustr ''vel''),
      tr_categoria = ustr ''valor''\<rparr>)]"

definition TRADUCOES_FEATURES :: "(pystr \<times> pystr) list" where
  "TRADUCOES_FEATURES = [
    (ustr ''banco'', ustr ''C'' @ [243] @ ustr ''digo do banco''),
    (ustr ''codigoBanco'', ustr ''C'' @ [243] @ ustr ''digo banc'' @ [225] @ ustr ''rio FEBRABAN''),
    (ustr ''agencia'', ustr ''N'' @ [250] @ ustr ''mero da ag'' @ [234] @ ustr ''ncia''),
    (ustr ''valor'', ustr ''Valor do boleto''),
    (ustr ''linha_codBanco'', ustr ''C'' @ [243] @ ustr ''digo do banco na linha digit'' @ [225] @ ustr ''vel''),
    (ustr ''linha_moeda'', ustr ''C'' @ [243] @ ustr ''digo da moeda''),
    (ustr ''linha_valor'', ustr ''Valor codificado'')]"

record categoria_info =
  ci_icone :: pystr
  ci_nome :: pystr
  ci_cor :: pystr

definition categoria_padrao_ml :: categoria_info where
  "categoria_padrao_ml =
     \<lparr>ci_icone = [129302], ci_nome = ustr ''Padr'' @ [227] @ ustr ''o Detectado por IA'',
      ci_cor = ustr ''purple''\<rparr>"

definition CATEGORIAS :: "(pystr \<times> categoria_info) list" where
  "CATEGORIAS = [
    (ustr ''dados_beneficiario'',
     \<lparr>ci_icone = [127970], ci_nome = ustr ''Dados do Benefici'' @ [225] @ ustr ''rio'', ci_cor = ustr ''red''\<rparr>),
    (ustr ''codigo_barras'',
     \<lparr>ci_icone = [128202], ci_nome = ustr ''C'' @ [243] @ ustr ''digo de Barras'', ci_cor = ustr ''orange''\<rparr>),
    (ustr ''valor'',
     \<lparr>ci_icone = [128176], ci_nome = ustr ''Valor do Boleto'', ci_cor = ustr ''orange''\<rparr>),
    (ustr ''vencimento'',
     \<lparr>ci_icone = [128197], ci_nome = ustr ''Data de Vencimento'', ci_cor = ustr ''yellow''\<rparr>),
    (ustr ''banco'',
     \<lparr>ci_icone = [127974], ci_nome = ustr ''Institui'' @ [231, 227] @ ustr ''o Banc'' @ [225] @ ustr ''ria'', ci_cor = ustr ''blue''\<rparr>),
    (ustr ''padrao_ml'', categoria_padrao_ml)]"

subsection \<open>Signals (\<open>razoes\<close>)\<close>

record razao =
  gravidade :: pystr
  categoria :: pystr
  categoria_nome :: pystr
  icone :: pystr
  cor :: pystr
  titulo :: pyval
  descricao_simples :: pyval
  descricao_avancada :: pyval
  impacto :: pyval
  fonte :: pystr

definition fonte_febraban :: pystr where
  "fonte_febraban = ustr ''Valida'' @ [231, 227] @ ustr ''o FEBRABAN''"

definition fonte_ia :: pystr where
  "fonte_ia = ustr ''Modelo de IA''"

text \<open>
  \<open>TRADUCOES_ERROS.get(erro, {"simples": erro, "avancado": erro, "categoria": "outros"})\<close>:
  the lookup hashes \<open>erro\<close> first.
\<close>

definition traduzir_erro :: "pyval \<Rightarrow> py_error + traducao" where
  "traduzir_erro erro =
     (if \<not> hashable erro then Inl TypeError
      else Inr (case (case erro of PStr s \<Rightarrow> map_of TRADUCOES_ERROS s | _ \<Rightarrow> None) of
                  Some t \<Rightarrow> t
                | None \<Rightarrow> \<lparr>tr_simples = erro, tr_avancado = erro, tr_categoria = ustr ''outros''\<rparr>))"

text \<open>The body of the loop over \<open>erros_febraban\<close>: one signal per error.\<close>

definition razao_febraban :: "pyval \<Rightarrow> py_error + razao" where
  "razao_febraban erro =
     bind_r (traduzir_erro erro) (\<lambda>traducao.
       let categoria_key = tr_categoria traducao;
           categoria_info = (case map_of CATEGORIAS categoria_key of
                               Some c \<Rightarrow> c | None \<Rightarrow> categoria_padrao_ml)
       in Inr \<lparr>gravidade = ustr ''critica'',
               categoria = categoria_key,
               categoria_nome = ci_nome categoria_info,
               icone = ci_icone categoria_info,
               cor = ci_cor categoria_info,
               titulo = tr_simples traducao,
               descricao_simples = tr_simples traducao,
               descricao_avancada = tr_avancado traducao,
               impacto = PFloat 1,
               fonte = fonte_febraban\<rparr>)"

fun razoes_febraban :: "pyval list \<Rightarrow> razao list \<Rightarrow> py_error + razao list" where
  "razoes_febraban [] razoes = Inr razoes"
| "razoes_febraban (erro # erros) razoes =
     bind_r (razao_febraban erro) (\<lambda>r. razoes_febraban erros (razoes @ [r]))"

text \<open>
  The float literals \<open>0.8\<close> and \<open>0.6\<close>: the doubles \<open>0x1.999999999999ap-1\<close> and
  \<open>0x1.3333333333333p-1\<close>, the first just above \<open>4/5\<close> and the second just below \<open>3/5\<close>.
\<close>

definition double_0_8 :: real where
  "double_0_8 = 3602879701896397 / 4503599627370496"

definition double_0_6 :: real where
  "double_0_6 = 5404319552844595 / 9007199254740992"

text \<open>The severity of the classifier's signal, from its confidence.\<close>

definition gravidade_ml :: "pyval \<Rightarrow> py_error + pystr" where
  "gravidade_ml confianca =
     bind_r (py_ge confianca double_0_8) (\<lambda>c1.
       if c1 then Inr (ustr ''alta'')
       else bind_r (py_ge confianca double_0_6) (\<lambda>c2.
         if c2 then Inr (ustr ''media'') else Inr (ustr ''baixa'')))"

definition razao_ml :: "ambiente \<Rightarrow> pyval \<Rightarrow> py_error + razao" where
  "razao_ml amb predicao_ml =
     bind_r (dict_get predicao_ml (ustr ''confianca'') (PInt 0)) (\<lambda>confianca.
     bind_r (gravidade_ml confianca) (\<lambda>grav.
     bind_r (py_mul100 confianca) (\<lambda>pct.
     bind_r (formatar_1f amb pct) (\<lambda>pct_txt.
     bind_r (dict_get predicao_ml (ustr ''features_usadas'') (PDict [])) (\<lambda>fu.
     bind_r (py_len fu) (\<lambda>n.
       Inr \<lparr>gravidade = grav,
            categoria = ustr ''padrao_ml'',
            categoria_nome = ustr ''Padr'' @ [227] @ ustr ''o Detectado por IA'',
            icone = [129302],
            cor = ustr ''purple'',
            titulo = PStr (ustr ''Padr'' @ [227] @ ustr ''o suspeito identificado''),
            descricao_simples = PStr (ustr ''A intelig'' @ [234] @ ustr ''ncia artificial identificou caracter'' @ [237] @ ustr ''sticas at'' @ [237] @ ustr ''picas neste boleto''),
            descricao_avancada = PStr (ustr ''Modelo de Machine Learning (Random Forest) detectou padr'' @ [227] @ ustr ''o com '' @ pct_txt @ ustr ''% de confian'' @ [231] @ ustr ''a baseado em '' @ formatar_int amb n @ ustr '' caracter'' @ [237] @ ustr ''sticas analisadas''),
            impacto = confianca,
            fonte = fonte_ia\<rparr>))))))"

text \<open>Collection, before ranking: the validator's signals, then the classifier's.\<close>

definition razoes_coletadas :: "ambiente \<Rightarrow> pyval \<Rightarrow> pyval \<Rightarrow> py_error + razao list" where
  "razoes_coletadas amb validacao predicao_ml =
     bind_r (dict_get validacao (ustr ''erros'') (PList [])) (\<lambda>erros_febraban.
     bind_r (py_iter erros_febraban) (\<lambda>erros.
     bind_r (razoes_febraban erros []) (\<lambda>razoes.
     bind_r (dict_get predicao_ml (ustr ''is_fraudulento'') PNone) (\<lambda>flag.
       if truthy flag
       then bind_r (razao_ml amb predicao_ml) (\<lambda>r. Inr (razoes @ [r]))
       else Inr razoes))))"

text \<open>\<open>ordem_gravidade.get(g, 0)\<close>.\<close>

definition ordem_gravidade :: "pystr \<Rightarrow> int" where
  "ordem_gravidade g =
     (case map_of [(ustr ''critica'', 4), (ustr ''alta'', 3), (ustr ''media'', 2), (ustr ''baixa'', 1)] g of
        Some n \<Rightarrow> n | None \<Rightarrow> 0)"

text \<open>
  The numeric value by which an impact is compared. Every signal built above carries a
  boolean, an integer or a float there (the validator's \<open>1.0\<close>, or a confidence that the
  comparisons of \<open>gravidade_ml\<close> accepted), so the last case is never used.
\<close>

fun valor_numerico :: "pyval \<Rightarrow> real" where
  "valor_numerico (PBool b) = (if b then 1 else 0)"
| "valor_numerico (PInt n) = real_of_int n"
| "valor_numerico (PFloat r) = r"
| "valor_numerico v = 0"

definition chave_ordenacao :: "razao \<Rightarrow> int \<times> real" where
  "chave_ordenacao x = (ordem_gravidade (gravidade x), valor_numerico (impacto x))"

text \<open>
  \<open>list.sort(key=..., reverse=True)\<close>: the list is reversed, sorted by a stable ascending
  sort on the keys (tuples compare lexicographically), and reversed again.
\<close>

definition py_sort_reverse :: "('a \<Rightarrow> 'k::linorder) \<Rightarrow> 'a list \<Rightarrow> 'a list" where
  "py_sort_reverse f xs = rev (sort_key f (rev xs))"

definition coletar_razoes :: "ambiente \<Rightarrow> pyval \<Rightarrow> pyval \<Rightarrow> py_error + razao list" where
  "coletar_razoes amb validacao predicao_ml =
     bind_r (razoes_coletadas amb validacao predicao_ml) (\<lambda>razoes.
       Inr (py_sort_reverse chave_ordenacao razoes))"

subsection \<open>Risk level and recommendation\<close>

definition determinar_nivel_risco :: "pyval \<Rightarrow> pyval \<Rightarrow> py_error + pystr" where
  "determinar_nivel_risco score is_fraudulento =
     (if \<not> truthy is_fraudulento then Inr (ustr ''BAIXO'')
      else bind_r (py_ge score 80) (\<lambda>c1.
        if c1 then Inr (ustr ''CRITICO'')
        else bind_r (py_ge score 60) (\<lambda>c2.
          if c2 then Inr (ustr ''ALTO'')
          else bind_r (py_ge score 40) (\<lambda>c3.
            if c3 then Inr (ustr ''MEDIO'') else Inr (ustr ''BAIXO'')))))"

text \<open>A dict key that a template does not set is \<open>None\<close> in the record.\<close>

record recomendacao =
  nivel_risco :: pystr
  emoji :: "pystr option"
  rec_cor :: "pystr option"
  acao_principal :: "pystr option"
  mensagem :: pystr
  proximos_passos :: "pystr list option"

definition recomendacao_baixo :: recomendacao where
  "recomendacao_baixo =
     \<lparr>nivel_risco = ustr ''BAIXO'',
      emoji = Some [9989],
      rec_cor = Some (ustr ''green''),
      acao_principal = Some (ustr ''PODE PAGAR''),
      mensagem = ustr ''Este boleto passou nas verifica'' @ [231, 245] @ ustr ''es de seguran'' @ [231] @ ustr ''a. Ainda assim, sempre confira os dados do benefici'' @ [225] @ ustr ''rio antes de efetuar o pagamento.'',
      proximos_passos = Some [
        ustr ''Confira o nome do benefici'' @ [225] @ ustr ''rio'',
        ustr ''Verifique o valor e vencimento'',
        ustr ''Efetue o pagamento com seguran'' @ [231] @ ustr ''a'']\<rparr>"

definition recomendacao_critico :: recomendacao where
  "recomendacao_critico =
     \<lparr>nivel_risco = ustr ''CR'' @ [205] @ ustr ''TICO'',
      emoji = Some [128680],
      rec_cor = Some (ustr ''red''),
      acao_principal = Some (ustr ''N'' @ [195] @ ustr ''O PAGAR''),
      mensagem = ustr ''Este boleto apresenta sinais CLAROS de fraude. N'' @ [195] @ ustr ''O efetue o pagamento sob nenhuma circunst'' @ [226] @ ustr ''ncia. Entre em contato com o emissor atrav'' @ [233] @ ustr ''s de canais oficiais para verificar a autenticidade.'',
      proximos_passos = Some [
        [10060] @ ustr '' N'' @ [195] @ ustr ''O efetue o pagamento'',
        [128222] @ ustr '' Entre em contato com o emissor por canais oficiais'',
        [128680] @ ustr '' Reporte a tentativa de fraude '' @ [224] @ ustr ''s autoridades'',
        [9888, 65039] @ ustr '' Alerte outras pessoas sobre este golpe'']\<rparr>"

definition recomendacao_alto :: recomendacao where
  "recomendacao_alto =
     \<lparr>nivel_risco = ustr ''ALTO'',
      emoji = Some [9888, 65039],
      rec_cor = Some (ustr ''orange''),
      acao_principal = Some (ustr ''SUSPEITO - N'' @ [195] @ ustr ''O PAGAR''),
      mensagem = ustr ''Este boleto apresenta caracter'' @ [237] @ ustr ''sticas SUSPEITAS. Recomendamos fortemente que voc'' @ [234] @ ustr '' N'' @ [195] @ ustr ''O efetue o pagamento at'' @ [233] @ ustr '' confirmar sua autenticidade com o emissor.'',
      proximos_passos = Some [
        [128721] @ ustr '' Suspenda o pagamento'',
        [128222] @ ustr '' Confirme com o emissor por telefone oficial'',
        [128269] @ ustr '' Solicite um novo boleto se houver d'' @ [250] @ ustr ''vidas'',
        [9888, 65039] @ ustr '' Mantenha vigil'' @ [226] @ ustr ''ncia contra poss'' @ [237] @ ustr ''veis golpes'']\<rparr>"

definition recomendacao_medio :: recomendacao where
  "recomendacao_medio =
     \<lparr>nivel_risco = ustr ''M'' @ [201] @ ustr ''DIO'',
      emoji = Some [8505, 65039],
      rec_cor = Some (ustr ''yellow''),
      acao_principal = Some (ustr ''VERIFICAR ANTES DE PAGAR''),
      mensagem = ustr ''Este boleto apresenta algumas inconsist'' @ [234] @ ustr ''ncias. Por precau'' @ [231, 227] @ ustr ''o, confirme os dados com o emissor antes de efetuar o pagamento.'',
      proximos_passos = Some [
        [128269] @ ustr '' Verifique os dados do benefici'' @ [225] @ ustr ''rio'',
        [128222] @ ustr '' Confirme com o emissor se poss'' @ [237] @ ustr ''vel'',
        [9208, 65039] @ ustr '' Considere aguardar confirma'' @ [231, 227] @ ustr ''o antes de pagar'',
        [9989] @ ustr '' Prossiga com cautela ap'' @ [243] @ ustr ''s verifica'' @ [231, 227] @ ustr ''o'']\<rparr>"

definition gerar_recomendacao :: "pyval \<Rightarrow> pystr \<Rightarrow> pyval \<Rightarrow> recomendacao" where
  "gerar_recomendacao is_fraudulento nivel score =
     (if \<not> truthy is_fraudulento then recomendacao_baixo
      else if nivel = ustr ''CRITICO'' then recomendacao_critico
      else if nivel = ustr ''ALTO'' then recomendacao_alto
      else recomendacao_medio)"

subsection \<open>The simple view\<close>

record modo_simples =
  status :: pystr
  confianca :: "pystr option"
  resumo :: pystr
  principal_motivo :: "pyval option"
  acao_recomendada :: pystr
  ms_emoji :: "pystr option"

definition confianca_texto :: "pyval \<Rightarrow> py_error + pystr" where
  "confianca_texto score =
     bind_r (py_ge score 80) (\<lambda>c1.
       if c1 then Inr (ustr ''Muito Alta'')
       else bind_r (py_ge score 60) (\<lambda>c2.
         if c2 then Inr (ustr ''Alta'')
         else bind_r (py_ge score 40) (\<lambda>c3.
           if c3 then Inr (ustr ''M'' @ [233] @ ustr ''dia'') else Inr (ustr ''Baixa''))))"

definition gerar_modo_simples :: "pyval \<Rightarrow> razao list \<Rightarrow> pystr \<Rightarrow> pyval \<Rightarrow> py_error + modo_simples" where
  "gerar_modo_simples is_fraudulento rzs nivel score =
     (let status_texto = (if truthy is_fraudulento then ustr ''FRAUDULENTO''
                          else ustr ''V'' @ [193] @ ustr ''LIDO'');
          resumo_texto = (if truthy is_fraudulento then ustr ''Este boleto foi identificado como falso''
                          else ustr ''Este boleto aparenta ser aut'' @ [234] @ ustr ''ntico'');
          motivo = (if truthy is_fraudulento
                    then (case rzs of
                            [] \<Rightarrow> PStr (ustr ''Inconsist'' @ [234] @ ustr ''ncias detectadas'')
                          | r # _ \<Rightarrow> titulo r)
                    else PStr (ustr ''Todas as valida'' @ [231, 245] @ ustr ''es foram aprovadas''));
          acao = (if truthy is_fraudulento then ustr ''N'' @ [195] @ ustr ''O PAGUE este boleto''
                  else ustr ''Voc'' @ [234] @ ustr '' pode pagar, mas sempre confira os dados'')
      in bind_r (confianca_texto score) (\<lambda>conf_txt.
           Inr \<lparr>status = status_texto,
                confianca = Some conf_txt,
                resumo = resumo_texto,
                principal_motivo = Some motivo,
                acao_recomendada = acao,
                ms_emoji = Some (if truthy is_fraudulento then [128680] else [9989])\<rparr>))"

subsection \<open>The advanced view\<close>

record feature_importante =
  feature :: pyval
  nome_humanizado :: pyval
  valor :: pyval
  fi_impacto :: pystr

record validacao_febraban =
  aprovada :: pyval
  total_erros :: nat
  detalhes :: pyval

record modelo_ml =
  classe_predita :: pyval
  probabilidades :: pyval
  features_usadas :: nat

record analise_tecnica =
  an_validacao_febraban :: validacao_febraban
  an_modelo_ml :: modelo_ml

record metricas =
  score_fraude :: pyval
  confianca_modelo :: pyval
  features_importantes :: "feature_importante list"

record dados_boleto =
  db_banco :: pyval
  db_codigo_banco :: pyval
  db_valor :: pyval
  db_vencimento :: pyval

record detalhes_tecnicos =
  metodo_deteccao :: "pystr list"
  versao_modelo :: pystr
  dt_dados_extraidos :: dados_boleto

record modo_avancado =
  av_analise_tecnica :: analise_tecnica
  av_metricas :: metricas
  av_detalhes_tecnicos :: detalhes_tecnicos

definition determinar_metodos_deteccao :: "pyval \<Rightarrow> pyval \<Rightarrow> py_error + pystr list" where
  "determinar_metodos_deteccao validacao predicao_ml =
     bind_r (dict_get validacao (ustr ''valido'') (PBool True)) (\<lambda>valido.
     bind_r (dict_get predicao_ml (ustr ''is_fraudulento'') (PBool False)) (\<lambda>flag.
       Inr ((if \<not> truthy valido then [ustr ''validacao_febraban''] else [])
            @ (if truthy flag then [ustr ''modelo_ml''] else []))))"

text \<open>One entry of \<open>features_importantes\<close>; \<open>hash(nome) % 100\<close> lies in \<open>0..99\<close>.\<close>

definition feature_entry :: "ambiente \<Rightarrow> pyval \<times> pyval \<Rightarrow> feature_importante" where
  "feature_entry amb nv =
     \<lparr>feature = fst nv,
      nome_humanizado =
        (case (case fst nv of PStr s \<Rightarrow> map_of TRADUCOES_FEATURES s | _ \<Rightarrow> None) of
           Some t \<Rightarrow> PStr t | None \<Rightarrow> fst nv),
      valor = snd nv,
      fi_impacto = (if \<bar>py_hash amb (fst nv) mod 100\<bar> > 50 then ustr ''alto''
                    else ustr ''m'' @ [233] @ ustr ''dio'')\<rparr>"

definition coletar_features :: "ambiente \<Rightarrow> pyval \<Rightarrow> py_error + feature_importante list" where
  "coletar_features amb predicao_ml =
     bind_r (py_in (ustr ''features_usadas'') predicao_ml) (\<lambda>presente.
       if presente
       then bind_r (py_getitem predicao_ml (ustr ''features_usadas'')) (\<lambda>features.
            bind_r (py_items features) (\<lambda>itens. Inr (map (feature_entry amb) itens)))
       else Inr [])"

definition gerar_modo_avancado :: "ambiente \<Rightarrow> pyval \<Rightarrow> pyval \<Rightarrow> pyval \<Rightarrow> py_error + modo_avancado" where
  "gerar_modo_avancado amb validacao predicao_ml dados_extraidos =
     bind_r (coletar_features amb predicao_ml) (\<lambda>fis.
     bind_r (dict_get validacao (ustr ''valido'') (PBool False)) (\<lambda>v_aprovada.
     bind_r (dict_get validacao (ustr ''erros'') (PList [])) (\<lambda>v_erros.
     bind_r (py_len v_erros) (\<lambda>n_erros.
     bind_r (dict_get validacao (ustr ''detalhes'') (PDict [])) (\<lambda>v_detalhes.
     bind_r (dict_get predicao_ml (ustr ''classe_predita'') PNone) (\<lambda>p_classe.
     bind_r (dict_get predicao_ml (ustr ''probabilidades'') (PDict [])) (\<lambda>p_probs.
     bind_r (dict_get predicao_ml (ustr ''features_usadas'') (PDict [])) (\<lambda>p_fu.
     bind_r (py_len p_fu) (\<lambda>n_fu.
     bind_r (dict_get predicao_ml (ustr ''score_fraude'') (PInt 0)) (\<lambda>p_score.
     bind_r (dict_get predicao_ml (ustr ''confianca'') (PInt 0)) (\<lambda>p_conf.
     bind_r (determinar_metodos_deteccao validacao predicao_ml) (\<lambda>metodos.
     bind_r (dict_get dados_extraidos (ustr ''banco_nome'') PNone) (\<lambda>d_banco.
     bind_r (dict_get dados_extraidos (ustr ''codigo_banco'') PNone) (\<lambda>d_codigo.
     bind_r (dict_get dados_extraidos (ustr ''valor'') PNone) (\<lambda>d_valor.
     bind_r (dict_get dados_extraidos (ustr ''vencimento'') PNone) (\<lambda>d_venc.
       Inr \<lparr>av_analise_tecnica =
              \<lparr>an_validacao_febraban =
                 \<lparr>aprovada = v_aprovada, total_erros = n_erros, detalhes = v_detalhes\<rparr>,
               an_modelo_ml =
                 \<lparr>classe_predita = p_classe, probabilidades = p_probs, features_usadas = n_fu\<rparr>\<rparr>,
            av_metricas =
              \<lparr>score_fraude = p_score, confianca_modelo = p_conf,
               features_importantes = take 5 fis\<rparr>,
            av_detalhes_tecnicos =
              \<lparr>metodo_deteccao = metodos,
               versao_modelo = ustr ''1.0'',
               dt_dados_extraidos =
                 \<lparr>db_banco = d_banco, db_codigo_banco = d_codigo,
                  db_valor = d_valor, db_vencimento = d_venc\<rparr>\<rparr>\<rparr>))))))))))))))))"

subsection \<open>The complete explanation and its fallback\<close>

record explicacao =
  simples :: modo_simples
  avancado :: "modo_avancado option"
  razoes :: "razao list"
  recomendacao :: recomendacao
  gerado_em :: "pystr option"

definition gerar_explicacao_fallback :: "pyval \<Rightarrow> explicacao" where
  "gerar_explicacao_fallback is_fraudulento =
     \<lparr>simples =
        \<lparr>status = (if truthy is_fraudulento then ustr ''FRAUDULENTO''
                   else ustr ''V'' @ [193] @ ustr ''LIDO''),
         confianca = None,
         resumo = ustr ''An'' @ [225] @ ustr ''lise conclu'' @ [237] @ ustr ''da'',
         principal_motivo = None,
         acao_recomendada = ustr ''Verifique os detalhes'',
         ms_emoji = None\<rparr>,
      avancado = None,
      razoes = [],
      recomendacao =
        \<lparr>nivel_risco = ustr ''DESCONHECIDO'',
         emoji = None,
         rec_cor = None,
         acao_principal = None,
         mensagem = ustr ''Erro ao gerar explica'' @ [231, 227] @ ustr ''o detalhada'',
         proximos_passos = None\<rparr>,
      gerado_em = None\<rparr>"

text \<open>The body of the \<open>try\<close> block.\<close>

definition explicacao_corpo ::
  "ambiente \<Rightarrow> pyval \<Rightarrow> pyval \<Rightarrow> pyval \<Rightarrow> pyval \<Rightarrow> py_error + explicacao" where
  "explicacao_corpo amb is_fraudulento validacao predicao_ml dados_extraidos =
     bind_r (dict_get predicao_ml (ustr ''score_fraude'') (PInt 0)) (\<lambda>score.
     bind_r (determinar_nivel_risco score is_fraudulento) (\<lambda>nivel.
     bind_r (coletar_razoes amb validacao predicao_ml) (\<lambda>rzs.
     bind_r (gerar_modo_simples is_fraudulento rzs nivel score) (\<lambda>smp.
     bind_r (gerar_modo_avancado amb validacao predicao_ml dados_extraidos) (\<lambda>avc.
       Inr \<lparr>simples = smp,
            avancado = Some avc,
            razoes = rzs,
            recomendacao = gerar_recomendacao is_fraudulento nivel score,
            gerado_em = Some (utcnow_iso amb)\<rparr>)))))"

text \<open>\<open>try: ... except Exception: return gerar_explicacao_fallback(is_fraudulento)\<close>.\<close>

definition gerar_explicacao_completa ::
  "ambiente \<Rightarrow> pyval \<Rightarrow> pyval \<Rightarrow> pyval \<Rightarrow> pyval \<Rightarrow> py_error + explicacao" where
  "gerar_explicacao_completa amb is_fraudulento validacao predicao_ml dados_extraidos =
     (case explicacao_corpo amb is_fraudulento validacao predicao_ml dados_extraidos of
        Inr e \<Rightarrow> Inr e
      | Inl err \<Rightarrow> Inr (gerar_explicacao_fallback is_fraudulento))"

text \<open>The risk level computed inside a synthesis (the local \<open>nivel_risco\<close>).\<close>

definition nivel_risco_calculado :: "pyval \<Rightarrow> pyval \<Rightarrow> py_error + pystr" where
  "nivel_risco_calculado is_fraudulento predicao_ml =
     bind_r (dict_get predicao_ml (ustr ''score_fraude'') (PInt 0)) (\<lambda>score.
       determinar_nivel_risco score is_fraudulento)"

section \<open>The submission endpoint (src/api/main.py)\<close>

text \<open>The uploaded file: its declared content type, its name, and the bytes that
  \<open>file.read()\<close> returns.\<close>

record upload_file =
  content_type :: "pystr option"
  filename :: "pystr option"
  file_bytes :: "nat list"

text \<open>The document inserted into the collection \<open>analises\<close>.\<close>

record analise_doc =
  doc_id :: pystr
  doc_status :: pystr
  uploadedAt :: pystr
  fileType :: "pystr option"
  fileSize :: nat
  fileName :: "pystr option"

text \<open>The work item serialised onto the list \<open>boletos:jobs\<close>.\<close>

record job_data =
  analise_id :: pystr
  file_base64 :: pystr
  file_type :: "pystr option"

datatype http_exception = HTTPException (status_code: nat) (detail: pystr)

record resposta =
  r_id :: pystr
  r_status :: pystr
  r_message :: pystr
  r_fileName :: "pystr option"
  r_fileSize :: nat
  r_fileType :: "pystr option"

text \<open>The two external systems: the Job Store collection and the Work Queue list.\<close>

record mundo =
  analises :: "analise_doc list"
  fila :: "job_data list"

text \<open>
  What a request takes from outside: the fresh \<open>uuid.uuid4()\<close>, the clock,
  \<open>base64.b64encode\<close>, and whether the store or the queue raise on this request (the
  message of the exception, if so).
\<close>

record ambiente_api =
  uuid4 :: pystr
  utcnow :: pystr
  b64encode :: "nat list \<Rightarrow> pystr"
  falha_mongo :: "pystr option"
  falha_redis :: "pystr option"

text \<open>
  Modelled from the spec: the Job Store collaborator \<open>insert(id, initialFields)\<close>
  (\<open>database.mongodb\<close> is not among the sources). The insert either raises or adds the
  document; a document whose \<open>_id\<close> is already stored is refused.
\<close>

definition insert_one :: "ambiente_api \<Rightarrow> analise_doc \<Rightarrow> mundo \<Rightarrow> pystr + mundo" where
  "insert_one amb doc w =
     (case falha_mongo amb of
        Some msg \<Rightarrow> Inl msg
      | None \<Rightarrow>
          if doc_id doc \<in> doc_id ` set (analises w) then Inl (ustr ''DuplicateKeyError'')
          else Inr (w\<lparr>analises := analises w @ [doc]\<rparr>))"

text \<open>\<open>redis_conn.rpush('boletos:jobs', json.dumps(job_data))\<close>: append at the tail, or raise.\<close>

definition rpush :: "ambiente_api \<Rightarrow> job_data \<Rightarrow> mundo \<Rightarrow> pystr + mundo" where
  "rpush amb item w =
     (case falha_redis amb of
        Some msg \<Rightarrow> Inl msg
      | None \<Rightarrow> Inr (w\<lparr>fila := fila w @ [item]\<rparr>))"

definition allowed_types :: "pystr list" where
  "allowed_types = [ustr ''image/jpeg'', ustr ''image/png'', ustr ''application/pdf'']"

text \<open>\<open>', '.join(xs)\<close>.\<close>

fun join_virgula :: "pystr list \<Rightarrow> pystr" where
  "join_virgula [] = []"
| "join_virgula [x] = x"
| "join_virgula (x # y # zs) = x @ ustr '', '' @ join_virgula (y # zs)"

definition detalhe_tipo_invalido :: pystr where
  "detalhe_tipo_invalido =
     ustr ''Tipo de arquivo inv'' @ [225] @ ustr ''lido. Aceitos: '' @ join_virgula allowed_types"

definition detalhe_muito_grande :: pystr where
  "detalhe_muito_grande = ustr ''Arquivo muito grande. M'' @ [225] @ ustr ''ximo: 10MB''"

definition detalhe_vazio :: pystr where
  "detalhe_vazio = ustr ''Arquivo vazio''"

definition erro_interno :: "pystr \<Rightarrow> http_exception" where
  "erro_interno msg = HTTPException 500 (ustr ''Erro interno ao processar arquivo: '' @ msg)"

text \<open>
  The handler returns its result together with the successive states of the two external
  systems: the state it started in, then one more after each write that completed. An
  \<open>HTTPException\<close> raised inside the \<open>try\<close> is re-raised as it is; any other exception
  becomes a 500.
\<close>

definition analisar_boleto ::
  "ambiente_api \<Rightarrow> upload_file \<Rightarrow> mundo \<Rightarrow> (http_exception + resposta) \<times> mundo list" where
  "analisar_boleto amb file w =
     (if (case content_type file of None \<Rightarrow> True | Some t \<Rightarrow> t \<notin> set allowed_types)
      then (Inl (HTTPException 400 detalhe_tipo_invalido), [w])
      else
        let file_size = length (file_bytes file) in
        if file_size > 10 * 1024 * 1024
        then (Inl (HTTPException 400 detalhe_muito_grande), [w])
        else if file_size = 0
        then (Inl (HTTPException 400 detalhe_vazio), [w])
        else
          let file_b64 = b64encode amb (file_bytes file);
              novo_id = uuid4 amb
          in case insert_one amb
                    \<lparr>doc_id = novo_id, doc_status = ustr ''processing'', uploadedAt = utcnow amb,
                     fileType = content_type file, fileSize = file_size,
                     fileName = filename file\<rparr> w of
               Inl msg \<Rightarrow> (Inl (erro_interno msg), [w])
             | Inr w1 \<Rightarrow>
                 (case rpush amb
                         \<lparr>analise_id = novo_id, file_base64 = file_b64,
                          file_type = content_type file\<rparr> w1 of
                    Inl msg \<Rightarrow> (Inl (erro_interno msg), [w, w1])
                  | Inr w2 \<Rightarrow>
                      (Inr \<lparr>r_id = novo_id, r_status = ustr ''processing'',
                            r_message = ustr ''Boleto recebido e adicionado '' @ [224] @ ustr '' fila de processamento'',
                            r_fileName = filename file, r_fileSize = file_size,
                            r_fileType = content_type file\<rparr>,
                       [w, w1, w2])))"

section \<open>Observations used in the statements\<close>

text \<open>The values that compare with a number: booleans, integers and floats.\<close>

fun numerico :: "pyval \<Rightarrow> bool" where
  "numerico (PBool b) = True"
| "numerico (PInt n) = True"
| "numerico (PFloat r) = True"
| "numerico v = False"

text \<open>An explanation with its generation timestamp removed.\<close>

definition sem_gerado_em :: "explicacao \<Rightarrow> explicacao" where
  "sem_gerado_em e = e\<lparr>gerado_em := None\<rparr>"

text \<open>An advanced view, and an explanation, with the \<open>impacto\<close> label of every important
  feature blanked.\<close>

definition avancado_sem_rotulos :: "modo_avancado \<Rightarrow> modo_avancado" where
  "avancado_sem_rotulos a =
     a\<lparr>av_metricas := (av_metricas a)
        \<lparr>features_importantes :=
           map (\<lambda>x. x\<lparr>fi_impacto := []\<rparr>) (features_importantes (av_metricas a))\<rparr>\<rparr>"

definition sem_rotulos_impacto :: "explicacao \<Rightarrow> explicacao" where
  "sem_rotulos_impacto e = e\<lparr>avancado := map_option avancado_sem_rotulos (avancado e)\<rparr>"

section \<open>Concrete inputs\<close>

definition amb_exemplo :: ambiente where
  "amb_exemplo =
     \<lparr>py_hash = (\<lambda>_. 0), formatar_1f = (\<lambda>_. Inr (ustr ''87.5'')),
      formatar_int = (\<lambda>_. ustr ''0''), utcnow_iso = ustr ''2024-01-01T00:00:00''\<rparr>"

definition validacao_exemplo :: pyval where
  "validacao_exemplo =
     PDict [(PStr (ustr ''valido''), PBool False),
            (PStr (ustr ''erros''), PList [PStr (ustr ''Valor inconsistente''), PStr (ustr ''CNPJ ausente'')])]"

definition predicao_exemplo :: pyval where
  "predicao_exemplo =
     PDict [(PStr (ustr ''is_fraudulento''), PBool True),
            (PStr (ustr ''confianca''), PFloat (7 / 8)),
            (PStr (ustr ''score_fraude''), PInt 90)]"

definition razoes_exemplo :: "razao list" where
  "razoes_exemplo =
     [\<lparr>gravidade = ustr ''critica'', categoria = ustr ''valor'',
       categoria_nome = ustr ''Valor do Boleto'', icone = [128176], cor = ustr ''orange'',
       titulo = PStr (ustr ''Valor do boleto suspeito''),
       descricao_simples = PStr (ustr ''Valor do boleto suspeito''),
       descricao_avancada = PStr (ustr ''Valor informado n'' @ [227] @ ustr ''o corresponde ao valor codificado na linha digit'' @ [225] @ ustr ''vel''),
       impacto = PFloat 1, fonte = fonte_febraban\<rparr>,
      \<lparr>gravidade = ustr ''critica'', categoria = ustr ''outros'',
       categoria_nome = ustr ''Padr'' @ [227] @ ustr ''o Detectado por IA'', icone = [129302], cor = ustr ''purple'',
       titulo = PStr (ustr ''CNPJ ausente''),
       descricao_simples = PStr (ustr ''CNPJ ausente''),
       descricao_avancada = PStr (ustr ''CNPJ ausente''),
       impacto = PFloat 1, fonte = fonte_febraban\<rparr>,
      \<lparr>gravidade = ustr ''alta'', categoria = ustr ''padrao_ml'',
       categoria_nome = ustr ''Padr'' @ [227] @ ustr ''o Detectado por IA'', icone = [129302], cor = ustr ''purple'',
       titulo = PStr (ustr ''Padr'' @ [227] @ ustr ''o suspeito identificado''),
       descricao_simples = PStr (ustr ''A intelig'' @ [234] @ ustr ''ncia artificial identificou caracter'' @ [237] @ ustr ''sticas at'' @ [237] @ ustr ''picas neste boleto''),
       descricao_avancada = PStr (ustr ''Modelo de Machine Learning (Random Forest) detectou padr'' @ [227] @ ustr ''o com '' @ ustr ''87.5'' @ ustr ''% de confian'' @ [231] @ ustr ''a baseado em '' @ ustr ''0'' @ ustr '' caracter'' @ [237] @ ustr ''sticas analisadas''),
       impacto = PFloat (7 / 8), fonte = fonte_ia\<rparr>]"

definition validacao_valida :: pyval where
  "validacao_valida = PDict [(PStr (ustr ''valido''), PBool True), (PStr (ustr ''erros''), PList [])]"

definition predicao_score_baixo :: pyval where
  "predicao_score_baixo =
     PDict [(PStr (ustr ''is_fraudulento''), PBool False),
            (PStr (ustr ''score_fraude''), PInt 5),
            (PStr (ustr ''confianca''), PFloat (1 / 8))]"

definition predicao_sem_score :: pyval where
  "predicao_sem_score =
     PDict [(PStr (ustr ''is_fraudulento''), PBool False),
            (PStr (ustr ''score_fraude''), PNone)]"

definition validacao_codigo_barras :: pyval where
  "validacao_codigo_barras =
     PDict [(PStr (ustr ''valido''), PBool False),
            (PStr (ustr ''erros''),
             PList [PStr (ustr ''C'' @ [243] @ ustr ''digo de barras n'' @ [227] @ ustr ''o tem 44 d'' @ [237] @ ustr ''gitos'')])]"

definition predicao_score_zero :: pyval where
  "predicao_score_zero =
     PDict [(PStr (ustr ''is_fraudulento''), PBool False),
            (PStr (ustr ''score_fraude''), PInt 0)]"

definition predicao_com_features :: pyval where
  "predicao_com_features =
     PDict [(PStr (ustr ''is_fraudulento''), PBool False),
            (PStr (ustr ''score_fraude''), PInt 5),
            (PStr (ustr ''features_usadas''), PDict [(PStr (ustr ''banco''), PInt 1)])]"

definition amb_exemplo_alto :: ambiente where
  "amb_exemplo_alto = amb_exemplo\<lparr>py_hash := (\<lambda>_. 51)\<rparr>"

definition amb_exemplo_tarde :: ambiente where
  "amb_exemplo_tarde = amb_exemplo\<lparr>utcnow_iso := ustr ''2024-06-30T12:00:00''\<rparr>"

definition amb_api_exemplo :: ambiente_api where
  "amb_api_exemplo =
     \<lparr>uuid4 = ustr ''3f2b8c1e-0000-4000-8000-000000000001'',
      utcnow = ustr ''2024-01-01T00:00:00'',
      b64encode = (\<lambda>_. ustr ''AA==''),
      falha_mongo = None,
      falha_redis = None\<rparr>"

definition mundo_vazio :: mundo where
  "mundo_vazio = \<lparr>analises = [], fila = []\<rparr>"

definition arquivo_vazio :: upload_file where
  "arquivo_vazio =
     \<lparr>content_type = Some (ustr ''image/png''), filename = Some (ustr ''boleto.png''),
      file_bytes = []\<rparr>"

definition arquivo_10_mib :: upload_file where
  "arquivo_10_mib =
     \<lparr>content_type = Some (ustr ''application/pdf''), filename = Some (ustr ''boleto.pdf''),
      file_bytes = replicate (10 * 1024 * 1024) 0\<rparr>"

definition arquivo_pequeno :: upload_file where
  "arquivo_pequeno =
     \<lparr>content_type = Some (ustr ''image/jpeg''), filename = Some (ustr ''boleto.jpg''),
      file_bytes = [255, 216, 255]\<rparr>"

section \<open>Auxiliary facts\<close>

lemma ustr_eq_iff: "ustr a = ustr b \<longleftrightarrow> a = b"
  unfolding ustr_def by (simp add: inj_on_def)

lemma bind_r_Inr_iff: "bind_r m f = Inr y \<longleftrightarrow> (\<exists>x. m = Inr x \<and> f x = Inr y)"
  by (cases m) auto

lemma ordem_gravidade_valores:
  "ordem_gravidade (ustr ''critica'') = 4" "ordem_gravidade (ustr ''alta'') = 3"
  "ordem_gravidade (ustr ''media'') = 2" "ordem_gravidade (ustr ''baixa'') = 1"
  by (simp_all add: ordem_gravidade_def ustr_eq_iff)

lemma categorias_das_traducoes:
  "(s, t) \<in> set TRADUCOES_ERROS \<Longrightarrow> map_of CATEGORIAS (tr_categoria t) \<noteq> None"
  unfolding TRADUCOES_ERROS_def CATEGORIAS_def by (auto simp: ustr_eq_iff)

lemma outros_fora_de_categorias: "map_of CATEGORIAS (ustr ''outros'') = None"
  unfolding CATEGORIAS_def by (simp add: ustr_eq_iff)

lemma razao_febraban_campos:
  assumes "razao_febraban erro = Inr r"
  shows "gravidade r = ustr ''critica''" "impacto r = PFloat 1" "fonte r = fonte_febraban"
    "chave_ordenacao r = (4, 1)"
  using assms
  by (auto simp: razao_febraban_def bind_r_Inr_iff Let_def chave_ordenacao_def ordem_gravidade_valores)

lemma gravidade_ml_casos:
  assumes "gravidade_ml c = Inr g"
  shows "g = ustr ''alta'' \<or> g = ustr ''media'' \<or> g = ustr ''baixa''"
  using assms by (auto simp: gravidade_ml_def bind_r_Inr_iff split: if_splits)

lemma razao_ml_fonte:
  assumes "razao_ml amb p = Inr r"
  shows "fonte r = fonte_ia" "ordem_gravidade (gravidade r) \<le> 3"
  using assms
  by (auto simp: razao_ml_def bind_r_Inr_iff ordem_gravidade_valores dest!: gravidade_ml_casos)

lemma razoes_febraban_acc:
  "razoes_febraban erros acc = Inr out \<Longrightarrow>
     \<exists>rs. out = acc @ rs \<and> list_all2 (\<lambda>e r. razao_febraban e = Inr r) erros rs"
proof (induction erros arbitrary: acc)
  case Nil
  then show ?case by simp
next
  case (Cons e es)
  then obtain r where r: "razao_febraban e = Inr r" and rest: "razoes_febraban es (acc @ [r]) = Inr out"
    by (auto simp: bind_r_Inr_iff)
  from Cons.IH[OF rest] obtain rs where "out = (acc @ [r]) @ rs"
    "list_all2 (\<lambda>e r. razao_febraban e = Inr r) es rs" by blast
  with r show ?case by (intro exI[of _ "r # rs"]) simp
qed

lemma py_sort_reverse_desc: "sorted_wrt (\<lambda>a b. f b \<le> f a) (py_sort_reverse f xs)"
proof -
  have "sorted (map f (sort_key f (rev xs)))" by (rule sorted_sort_key)
  then have "sorted_wrt (\<lambda>a b. f a \<le> f b) (sort_key f (rev xs))"
    by (simp add: sorted_wrt_map)
  then show ?thesis
    unfolding py_sort_reverse_def by (simp add: sorted_wrt_rev)
qed

lemma py_sort_reverse_stable:
  "filter (\<lambda>y. f y = k) (py_sort_reverse f xs) = filter (\<lambda>y. f y = k) xs"
proof -
  have "filter (\<lambda>y. f y = k) (rev (sort_key f (rev xs))) = rev (filter (\<lambda>y. f y = k) (sort_key f (rev xs)))"
    by (simp add: rev_filter)
  also have "\<dots> = rev (filter (\<lambda>y. f y = k) (rev xs))"
    by (simp only: sort_key_stable)
  also have "\<dots> = filter (\<lambda>y. f y = k) xs"
    by (simp add: rev_filter)
  finally show ?thesis unfolding py_sort_reverse_def .
qed

lemma py_sort_reverse_id:
  assumes "sorted_wrt (\<lambda>a b. f b \<le> f a) xs"
  shows "py_sort_reverse f xs = xs"
proof -
  from assms have "sorted (map f (rev xs))"
    by (simp add: sorted_wrt_map rev_map[symmetric] sorted_wrt_rev)
  then have "sort_key f (rev xs) = rev xs" by (rule sort_key_id_if_sorted)
  then show ?thesis by (simp add: py_sort_reverse_def)
qed

lemma py_ge_valor: "py_ge c t = Inr b \<Longrightarrow> b = (t \<le> valor_numerico c)"
  by (cases c) auto

lemma gravidade_ml_valor:
  assumes "gravidade_ml c = Inr g"
  shows "g = (if double_0_8 \<le> valor_numerico c then ustr ''alta''
              else if double_0_6 \<le> valor_numerico c then ustr ''media'' else ustr ''baixa'')"
  using assms
  by (auto simp: gravidade_ml_def bind_r_Inr_iff split: if_splits dest!: py_ge_valor)

lemma limites_dos_floats:
  "4 / 5 < double_0_8" "double_0_6 < 3 / 5"
  "gravidade_ml (PFloat double_0_8) = Inr (ustr ''alta'')"
  "gravidade_ml (PFloat double_0_6) = Inr (ustr ''media'')"
  by (simp_all add: gravidade_ml_def double_0_8_def double_0_6_def)

lemma razao_ml_campos:
  assumes "razao_ml amb p = Inr r"
  shows "\<exists>c. dict_get p (ustr ''confianca'') (PInt 0) = Inr c \<and> impacto r = c \<and>
             gravidade_ml c = Inr (gravidade r)"
  using assms by (auto simp: razao_ml_def bind_r_Inr_iff)

lemma razoes_coletadas_forma:
  assumes "razoes_coletadas amb v p = Inr col"
  shows "\<exists>ev erros vs flag.
           dict_get v (ustr ''erros'') (PList []) = Inr ev \<and> py_iter ev = Inr erros \<and>
           list_all2 (\<lambda>e r. razao_febraban e = Inr r) erros vs \<and>
           dict_get p (ustr ''is_fraudulento'') PNone = Inr flag \<and>
           (if truthy flag then \<exists>r. razao_ml amb p = Inr r \<and> col = vs @ [r] else col = vs)"
proof -
  from assms obtain ev erros rz flag where
    ev: "dict_get v (ustr ''erros'') (PList []) = Inr ev" and it: "py_iter ev = Inr erros" and
    rz: "razoes_febraban erros [] = Inr rz" and
    fl: "dict_get p (ustr ''is_fraudulento'') PNone = Inr flag" and
    fim: "(if truthy flag then bind_r (razao_ml amb p) (\<lambda>r. Inr (rz @ [r])) else Inr rz) = Inr col"
    unfolding razoes_coletadas_def bind_r_Inr_iff by blast
  from razoes_febraban_acc[OF rz] have l2: "list_all2 (\<lambda>e r. razao_febraban e = Inr r) erros rz"
    by simp
  from fim have "if truthy flag then \<exists>r. razao_ml amb p = Inr r \<and> col = rz @ [r] else col = rz"
    by (auto simp: bind_r_Inr_iff split: if_splits)
  with ev it l2 fl show ?thesis by blast
qed

lemma chaves_febraban:
  "list_all2 (\<lambda>e r. razao_febraban e = Inr r) erros vs \<Longrightarrow> \<forall>r\<in>set vs. chave_ordenacao r = (4, 1)"
  by (induction rule: list_all2_induct) (auto simp: razao_febraban_campos)

lemma coletadas_ja_ordenadas:
  assumes "razoes_coletadas amb v p = Inr col"
  shows "sorted_wrt (\<lambda>a b. chave_ordenacao b \<le> chave_ordenacao a) col"
proof -
  from razoes_coletadas_forma[OF assms] obtain erros vs flag where
    l2: "list_all2 (\<lambda>e r. razao_febraban e = Inr r) erros vs" and
    fim: "if truthy flag then \<exists>r. razao_ml amb p = Inr r \<and> col = vs @ [r] else col = vs"
    by blast
  have ks: "\<forall>r\<in>set vs. chave_ordenacao r = (4, 1)" by (rule chaves_febraban[OF l2])
  then have svs: "sorted_wrt (\<lambda>a b. chave_ordenacao b \<le> chave_ordenacao a) vs"
    by (induction vs) auto
  show ?thesis
  proof (cases "truthy flag")
    case False
    with fim svs show ?thesis by simp
  next
    case True
    with fim obtain r where r: "razao_ml amb p = Inr r" and col: "col = vs @ [r]" by auto
    from razao_ml_fonte(2)[OF r] have "\<forall>x\<in>set vs. chave_ordenacao r \<le> chave_ordenacao x"
      using ks by (auto simp: chave_ordenacao_def less_eq_prod_def)
    with svs col show ?thesis by (simp add: sorted_wrt_append)
  qed
qed

lemma coletar_razoes_eq_coletadas:
  "coletar_razoes amb v p = Inr saida \<longleftrightarrow> razoes_coletadas amb v p = Inr saida"
proof
  assume "coletar_razoes amb v p = Inr saida"
  then obtain col where c: "razoes_coletadas amb v p = Inr col"
    and s: "saida = py_sort_reverse chave_ordenacao col"
    by (auto simp: coletar_razoes_def bind_r_Inr_iff)
  from py_sort_reverse_id[OF coletadas_ja_ordenadas[OF c]] s c
  show "razoes_coletadas amb v p = Inr saida" by simp
next
  assume c: "razoes_coletadas amb v p = Inr saida"
  from py_sort_reverse_id[OF coletadas_ja_ordenadas[OF c]] c
  show "coletar_razoes amb v p = Inr saida" by (simp add: coletar_razoes_def)
qed

lemma map_sum_bind_r: "map_sum id h (bind_r m k) = bind_r m (\<lambda>x. map_sum id h (k x))"
  by (cases m) simp_all

lemma razao_ml_amb:
  assumes "formatar_1f amb1 = formatar_1f amb2" "formatar_int amb1 = formatar_int amb2"
  shows "razao_ml amb1 p = razao_ml amb2 p"
  using assms by (simp add: razao_ml_def)

lemma coletar_razoes_amb:
  assumes "formatar_1f amb1 = formatar_1f amb2" "formatar_int amb1 = formatar_int amb2"
  shows "coletar_razoes amb1 v p = coletar_razoes amb2 v p"
  by (simp add: coletar_razoes_def razoes_coletadas_def razao_ml_amb[OF assms] cong: if_cong)

lemma coletar_features_amb:
  "map_sum id (map (\<lambda>x. x\<lparr>fi_impacto := []\<rparr>)) (coletar_features amb1 p)
   = map_sum id (map (\<lambda>x. x\<lparr>fi_impacto := []\<rparr>)) (coletar_features amb2 p)"
  by (simp add: coletar_features_def map_sum_bind_r feature_entry_def comp_def
      if_distrib[of "map_sum id (map (\<lambda>x. x\<lparr>fi_impacto := []\<rparr>))"] cong: if_cong)

lemma coletar_features_casos:
  "(\<exists>err. coletar_features amb1 p = Inl err \<and> coletar_features amb2 p = Inl err) \<or>
   (\<exists>f1 f2. coletar_features amb1 p = Inr f1 \<and> coletar_features amb2 p = Inr f2 \<and>
      map (\<lambda>x. x\<lparr>fi_impacto := []\<rparr>) f1 = map (\<lambda>x. x\<lparr>fi_impacto := []\<rparr>) f2)"
  using coletar_features_amb[of amb1 p amb2]
  by (cases "coletar_features amb1 p"; cases "coletar_features amb2 p") auto

lemma gerar_modo_avancado_amb:
  "map_sum id avancado_sem_rotulos (gerar_modo_avancado amb1 v p d)
   = map_sum id avancado_sem_rotulos (gerar_modo_avancado amb2 v p d)"
  using coletar_features_casos[of amb1 p amb2]
  by (auto simp: gerar_modo_avancado_def map_sum_bind_r avancado_sem_rotulos_def take_map[symmetric])


lemma explicacao_corpo_amb:
  assumes "formatar_1f amb1 = formatar_1f amb2" "formatar_int amb1 = formatar_int amb2"
  shows "map_sum id (\<lambda>e. sem_rotulos_impacto (sem_gerado_em e)) (explicacao_corpo amb1 f v p d)
       = map_sum id (\<lambda>e. sem_rotulos_impacto (sem_gerado_em e)) (explicacao_corpo amb2 f v p d)"
proof -
  have "(\<exists>err. gerar_modo_avancado amb1 v p d = Inl err \<and> gerar_modo_avancado amb2 v p d = Inl err) \<or>
        (\<exists>a1 a2. gerar_modo_avancado amb1 v p d = Inr a1 \<and> gerar_modo_avancado amb2 v p d = Inr a2 \<and>
           avancado_sem_rotulos a1 = avancado_sem_rotulos a2)"
    using gerar_modo_avancado_amb[of amb1 v p d amb2]
    by (cases "gerar_modo_avancado amb1 v p d"; cases "gerar_modo_avancado amb2 v p d") auto
  then show ?thesis
    by (auto simp: explicacao_corpo_def map_sum_bind_r coletar_razoes_amb[OF assms]
        sem_rotulos_impacto_def sem_gerado_em_def)
qed

lemma gerar_modo_avancado_mesmo_hash:
  assumes "py_hash amb1 = py_hash amb2"
  shows "gerar_modo_avancado amb1 v p d = gerar_modo_avancado amb2 v p d"
proof -
  have "feature_entry amb1 = feature_entry amb2"
    using assms by (simp add: feature_entry_def fun_eq_iff)
  then have "coletar_features amb1 p = coletar_features amb2 p"
    by (simp add: coletar_features_def cong: if_cong)
  then show ?thesis by (simp add: gerar_modo_avancado_def)
qed

lemma explicacao_corpo_mesmo_hash:
  assumes "formatar_1f amb1 = formatar_1f amb2" "formatar_int amb1 = formatar_int amb2"
    "py_hash amb1 = py_hash amb2"
  shows "map_sum id sem_gerado_em (explicacao_corpo amb1 f v p d)
       = map_sum id sem_gerado_em (explicacao_corpo amb2 f v p d)"
  by (simp add: explicacao_corpo_def map_sum_bind_r coletar_razoes_amb[OF assms(1,2)]
      gerar_modo_avancado_mesmo_hash[OF assms(3)] sem_gerado_em_def)

lemma completa_de_corpo:
  assumes "map_sum id h (explicacao_corpo amb1 f v p d) = map_sum id h (explicacao_corpo amb2 f v p d)"
  shows "map_sum id h (gerar_explicacao_completa amb1 f v p d)
       = map_sum id h (gerar_explicacao_completa amb2 f v p d)"
  using assms
  by (cases "explicacao_corpo amb1 f v p d"; cases "explicacao_corpo amb2 f v p d")
     (auto simp: gerar_explicacao_completa_def)

text \<open>The definitions unfolded to run the explainer on a concrete input.\<close>

lemmas avaliar =
  gerar_explicacao_completa_def explicacao_corpo_def determinar_nivel_risco_def
  coletar_razoes_def py_sort_reverse_def chave_ordenacao_def ordem_gravidade_def
  razoes_coletadas_def razao_febraban_def traduzir_erro_def TRADUCOES_ERROS_def CATEGORIAS_def
  categoria_padrao_ml_def razao_ml_def gravidade_ml_def double_0_8_def double_0_6_def
  gerar_modo_simples_def confianca_texto_def
  gerar_modo_avancado_def coletar_features_def feature_entry_def determinar_metodos_deteccao_def
  gerar_recomendacao_def gerar_explicacao_fallback_def TRADUCOES_FEATURES_def
  Let_def fonte_febraban_def fonte_ia_def ustr_def

lemma py_ge_numerico: "numerico s \<Longrightarrow> py_ge s c = Inr (c \<le> valor_numerico s)"
  by (cases s) auto


lemma determinar_nivel_risco_valores:
  assumes "determinar_nivel_risco score f = Inr n"
  shows "n = ustr ''BAIXO'' \<or> n = ustr ''MEDIO'' \<or> n = ustr ''ALTO'' \<or> n = ustr ''CRITICO''"
  using assms by (auto simp: determinar_nivel_risco_def bind_r_Inr_iff split: if_splits)

lemma explicacao_corpo_recomendacao:
  assumes "explicacao_corpo amb f v p d = Inr e"
  shows "\<exists>score n. dict_get p (ustr ''score_fraude'') (PInt 0) = Inr score \<and>
           determinar_nivel_risco score f = Inr n \<and>
           recomendacao e = gerar_recomendacao f n score"
  using assms by (auto simp: explicacao_corpo_def bind_r_Inr_iff)

lemma traduzir_erro_casos:
  assumes "traduzir_erro erro = Inr t"
  shows "t = \<lparr>tr_simples = erro, tr_avancado = erro, tr_categoria = ustr ''outros''\<rparr> \<or>
         (\<exists>s. (s, t) \<in> set TRADUCOES_ERROS)"
proof (cases erro)
  case (PStr s)
  show ?thesis
  proof (cases "map_of TRADUCOES_ERROS s")
    case None
    with PStr assms show ?thesis by (simp add: traduzir_erro_def)
  next
    case (Some t')
    with PStr assms have "t = t'" by (simp add: traduzir_erro_def)
    with Some have "(s, t) \<in> set TRADUCOES_ERROS" by (simp add: map_of_SomeD)
    then show ?thesis by blast
  qed
qed (use assms in \<open>simp_all add: traduzir_erro_def\<close>)

lemma razao_febraban_de_traducao:
  assumes "razao_febraban erro = Inr r"
  shows "\<exists>t. traduzir_erro erro = Inr t \<and> categoria r = tr_categoria t \<and>
             titulo r = tr_simples t \<and> descricao_simples r = tr_simples t \<and>
             descricao_avancada r = tr_avancado t \<and>
             (map_of CATEGORIAS (tr_categoria t) = None \<longrightarrow>
                categoria_nome r = ci_nome categoria_padrao_ml \<and>
                icone r = ci_icone categoria_padrao_ml \<and> cor r = ci_cor categoria_padrao_ml)"
proof -
  from assms obtain t where t: "traduzir_erro erro = Inr t"
    by (cases "traduzir_erro erro") (simp_all add: razao_febraban_def)
  with assms show ?thesis
    by (cases "map_of CATEGORIAS (tr_categoria t)") (auto simp: razao_febraban_def Let_def)
qed

lemma tipo_rejeitado_iff:
  "(case ct of None \<Rightarrow> True | Some t \<Rightarrow> t \<notin> set allowed_types) \<longleftrightarrow> ct \<notin> Some ` set allowed_types"
  by (cases ct) auto

lemma razoes_febraban_total:
  "\<forall>e\<in>set es. hashable e \<Longrightarrow> \<exists>out. razoes_febraban es acc = Inr out"
  by (induction es arbitrary: acc) (auto simp: razao_febraban_def traduzir_erro_def Let_def)

lemma coletar_razoes_total:
  assumes "dict_get validacao (ustr ''erros'') (PList []) = Inr (PList es)"
    and "\<forall>e\<in>set es. hashable e"
    and "dict_get predicao_ml (ustr ''is_fraudulento'') PNone = Inr flag"
    and "truthy flag \<longrightarrow>
           (\<exists>c x t fu n. dict_get predicao_ml (ustr ''confianca'') (PInt 0) = Inr c \<and> numerico c \<and>
              py_mul100 c = Inr x \<and> formatar_1f amb x = Inr t \<and>
              dict_get predicao_ml (ustr ''features_usadas'') (PDict []) = Inr fu \<and>
              py_len fu = Inr n)"
  shows "\<exists>saida. coletar_razoes amb validacao predicao_ml = Inr saida"
proof -
  from razoes_febraban_total[OF assms(2)] obtain vs where vs: "razoes_febraban es [] = Inr vs"
    by blast
  show ?thesis
  proof (cases "truthy flag")
    case False
    with assms(1,3) vs have "razoes_coletadas amb validacao predicao_ml = Inr vs"
      by (simp add: razoes_coletadas_def)
    then show ?thesis by (simp add: coletar_razoes_def)
  next
    case True
    with assms(4) obtain c x t fu n where
      c: "dict_get predicao_ml (ustr ''confianca'') (PInt 0) = Inr c" "numerico c"
         "py_mul100 c = Inr x" "formatar_1f amb x = Inr t"
         "dict_get predicao_ml (ustr ''features_usadas'') (PDict []) = Inr fu" "py_len fu = Inr n"
      by blast
    then have "\<exists>r. razao_ml amb predicao_ml = Inr r"
      by (simp add: razao_ml_def gravidade_ml_def py_ge_numerico)
    then obtain r where "razao_ml amb predicao_ml = Inr r" ..
    with True assms(1,3) vs have "razoes_coletadas amb validacao predicao_ml = Inr (vs @ [r])"
      by (simp add: razoes_coletadas_def)
    then show ?thesis by (simp add: coletar_razoes_def)
  qed
qed

section \<open>Claims about the explainer\<close>

text \<open>
  C3. The ranking step sorts the collected signals in descending order of the key
  (severity rank, impact), with ranks critica = 4, alta = 3, media = 2, baixa = 1, and the
  sort is stable: the signals that share a key appear in the output in the order in which
  they were collected. The collection puts every validator signal before the single
  classifier signal.
\<close>

theorem ordenacao_estavel_das_razoes:
  assumes "coletar_razoes amb validacao predicao_ml = Inr saida"
  shows "\<exists>coletadas vs ms.
           razoes_coletadas amb validacao predicao_ml = Inr coletadas \<and>
           saida = py_sort_reverse chave_ordenacao coletadas \<and>
           sorted_wrt (\<lambda>a b. chave_ordenacao b \<le> chave_ordenacao a) saida \<and>
           (\<forall>k. filter (\<lambda>x. chave_ordenacao x = k) saida
                = filter (\<lambda>x. chave_ordenacao x = k) coletadas) \<and>
           coletadas = vs @ ms \<and> length ms \<le> 1 \<and>
           (\<forall>r\<in>set vs. fonte r = fonte_febraban) \<and> (\<forall>r\<in>set ms. fonte r = fonte_ia) \<and>
           (\<forall>x. chave_ordenacao x = (ordem_gravidade (gravidade x), valor_numerico (impacto x))) \<and>
           ordem_gravidade (ustr ''critica'') = 4 \<and> ordem_gravidade (ustr ''alta'') = 3 \<and>
           ordem_gravidade (ustr ''media'') = 2 \<and> ordem_gravidade (ustr ''baixa'') = 1"
proof -
  from assms obtain col where c: "razoes_coletadas amb validacao predicao_ml = Inr col"
    and s: "saida = py_sort_reverse chave_ordenacao col"
    by (auto simp: coletar_razoes_def bind_r_Inr_iff)
  from razoes_coletadas_forma[OF c] obtain erros vs flag where
    l2: "list_all2 (\<lambda>e r. razao_febraban e = Inr r) erros vs" and
    fim: "if truthy flag then \<exists>r. razao_ml amb predicao_ml = Inr r \<and> col = vs @ [r] else col = vs"
    by blast
  have fv: "\<forall>r\<in>set vs. fonte r = fonte_febraban"
    using l2 by (induction rule: list_all2_induct) (auto simp: razao_febraban_campos)
  have "\<exists>ms. col = vs @ ms \<and> length ms \<le> 1 \<and> (\<forall>r\<in>set ms. fonte r = fonte_ia)"
  proof (cases "truthy flag")
    case True
    with fim obtain r where "razao_ml amb predicao_ml = Inr r" "col = vs @ [r]" by auto
    then show ?thesis by (intro exI[of _ "[r]"]) (simp add: razao_ml_fonte)
  next
    case False
    with fim show ?thesis by (intro exI[of _ "[]"]) simp
  qed
  then obtain ms where ms: "col = vs @ ms" "length ms \<le> 1" "\<forall>r\<in>set ms. fonte r = fonte_ia"
    by blast
  have d: "sorted_wrt (\<lambda>a b. chave_ordenacao b \<le> chave_ordenacao a) saida"
    unfolding s by (rule py_sort_reverse_desc)
  have e: "\<forall>k. filter (\<lambda>x. chave_ordenacao x = k) saida = filter (\<lambda>x. chave_ordenacao x = k) col"
    unfolding s by (simp add: py_sort_reverse_stable)
  have k: "\<forall>x. chave_ordenacao x = (ordem_gravidade (gravidade x), valor_numerico (impacto x))"
    by (simp add: chave_ordenacao_def)
  from c s d e ms fv k ordem_gravidade_valores show ?thesis by blast
qed

theorem ordenacao_estavel_das_razoes_witness:
  "coletar_razoes amb_exemplo validacao_exemplo predicao_exemplo = Inr razoes_exemplo \<and>
   (\<exists>coletadas vs ms.
      razoes_coletadas amb_exemplo validacao_exemplo predicao_exemplo = Inr coletadas \<and>
      razoes_exemplo = py_sort_reverse chave_ordenacao coletadas \<and>
      sorted_wrt (\<lambda>a b. chave_ordenacao b \<le> chave_ordenacao a) razoes_exemplo \<and>
      (\<forall>k. filter (\<lambda>x. chave_ordenacao x = k) razoes_exemplo
           = filter (\<lambda>x. chave_ordenacao x = k) coletadas) \<and>
      coletadas = vs @ ms \<and> length ms \<le> 1 \<and>
      (\<forall>r\<in>set vs. fonte r = fonte_febraban) \<and> (\<forall>r\<in>set ms. fonte r = fonte_ia))"
proof -
  have h: "coletar_razoes amb_exemplo validacao_exemplo predicao_exemplo = Inr razoes_exemplo"
    by (simp add: coletar_razoes_def py_sort_reverse_def chave_ordenacao_def ordem_gravidade_def
        razoes_coletadas_def validacao_exemplo_def predicao_exemplo_def razoes_exemplo_def
        amb_exemplo_def razao_febraban_def traduzir_erro_def TRADUCOES_ERROS_def CATEGORIAS_def
        categoria_padrao_ml_def razao_ml_def gravidade_ml_def double_0_8_def double_0_6_def ustr_def
        Let_def fonte_febraban_def
        fonte_ia_def)
  from ordenacao_estavel_das_razoes[OF h] h show ?thesis by blast
qed

lemma sinais_das_razoes_coletadas:
  assumes "coletar_razoes amb validacao predicao_ml = Inr saida"
  shows "\<exists>ev erros flag.
           dict_get validacao (ustr ''erros'') (PList []) = Inr ev \<and> py_iter ev = Inr erros \<and>
           dict_get predicao_ml (ustr ''is_fraudulento'') PNone = Inr flag \<and>
           list_all2 (\<lambda>e r. razao_febraban e = Inr r \<and> gravidade r = ustr ''critica'' \<and> impacto r = PFloat 1)
             erros (filter (\<lambda>r. fonte r = fonte_febraban) saida) \<and>
           length (filter (\<lambda>r. gravidade r = ustr ''critica'') saida) = length erros \<and>
           (if truthy flag
            then \<exists>r c. filter (\<lambda>r. fonte r = fonte_ia) saida = [r] \<and>
                   dict_get predicao_ml (ustr ''confianca'') (PInt 0) = Inr c \<and> impacto r = c \<and>
                   gravidade r = (if double_0_8 \<le> valor_numerico c then ustr ''alta''
                                  else if double_0_6 \<le> valor_numerico c then ustr ''media''
                                  else ustr ''baixa'')
            else filter (\<lambda>r. fonte r = fonte_ia) saida = [])"
proof -
  from assms have c: "razoes_coletadas amb validacao predicao_ml = Inr saida"
    by (simp add: coletar_razoes_eq_coletadas)
  from razoes_coletadas_forma[OF c] obtain ev erros vs flag where
    ev: "dict_get validacao (ustr ''erros'') (PList []) = Inr ev" and it: "py_iter ev = Inr erros" and
    l2: "list_all2 (\<lambda>e r. razao_febraban e = Inr r) erros vs" and
    fl: "dict_get predicao_ml (ustr ''is_fraudulento'') PNone = Inr flag" and
    fim: "if truthy flag then \<exists>r. razao_ml amb predicao_ml = Inr r \<and> saida = vs @ [r] else saida = vs"
    by blast
  have dif: "fonte_febraban \<noteq> fonte_ia" by (simp add: fonte_febraban_def fonte_ia_def ustr_def)
  have fv: "filter (\<lambda>r. fonte r = fonte_febraban) vs = vs" "filter (\<lambda>r. fonte r = fonte_ia) vs = []"
    "filter (\<lambda>r. gravidade r = ustr ''critica'') vs = vs"
    using l2 dif by (induction rule: list_all2_induct) (auto simp: razao_febraban_campos)
  have l2': "list_all2 (\<lambda>e r. razao_febraban e = Inr r \<and> gravidade r = ustr ''critica'' \<and> impacto r = PFloat 1) erros vs"
    using l2 by (induction rule: list_all2_induct) (auto simp: razao_febraban_campos)
  have len: "length vs = length erros" using l2 by (simp add: list_all2_lengthD)
  show ?thesis
  proof (cases "truthy flag")
    case False
    with fim have "saida = vs" by simp
    with ev it fl l2' fv len False show ?thesis by auto
  next
    case True
    with fim obtain r where r: "razao_ml amb predicao_ml = Inr r" and s: "saida = vs @ [r]" by auto
    from razao_ml_campos[OF r] obtain c where
      cc: "dict_get predicao_ml (ustr ''confianca'') (PInt 0) = Inr c" "impacto r = c"
      "gravidade_ml c = Inr (gravidade r)" by blast
    note g = gravidade_ml_valor[OF cc(3)]
    have ncrit: "gravidade r \<noteq> ustr ''critica''"
      using gravidade_ml_casos[OF cc(3)] by (auto simp: ustr_eq_iff)
    have fr: "fonte r = fonte_ia" by (rule razao_ml_fonte(1)[OF r])
    have a: "filter (\<lambda>r. fonte r = fonte_febraban) saida = vs"
      using s fv fr dif by simp
    have b: "filter (\<lambda>r. fonte r = fonte_ia) saida = [r]"
      using s fv fr by simp
    have d: "length (filter (\<lambda>r. gravidade r = ustr ''critica'') saida) = length erros"
      using s fv ncrit len by simp
    from ev it fl l2' a b d cc g True show ?thesis by auto
  qed
qed

text \<open>
  C6. Every error of the validation result yields exactly one signal, of severity
  \<open>critica\<close> and impact \<open>1.0\<close>, in the order of the errors, so the critical signals are as
  many as the errors. The classifier contributes one signal exactly when its
  \<open>is_fraudulento\<close> flag is true, with the confidence as impact and the severity
  \<open>alta\<close> from the float 0.8, \<open>media\<close> from the float 0.6 (both included) and
  \<open>baixa\<close> below. The collection returns
  whenever the errors are a list of hashable values (strings are) and, if the classifier
  flags fraud, its confidence is a number that formats and its features have a length.
\<close>

theorem sinais_por_fonte:
  "(coletar_razoes amb validacao predicao_ml = Inr saida \<longrightarrow>
      (\<exists>ev erros flag.
         dict_get validacao (ustr ''erros'') (PList []) = Inr ev \<and> py_iter ev = Inr erros \<and>
         dict_get predicao_ml (ustr ''is_fraudulento'') PNone = Inr flag \<and>
         list_all2 (\<lambda>e r. razao_febraban e = Inr r \<and> gravidade r = ustr ''critica'' \<and> impacto r = PFloat 1)
           erros (filter (\<lambda>r. fonte r = fonte_febraban) saida) \<and>
         length (filter (\<lambda>r. gravidade r = ustr ''critica'') saida) = length erros \<and>
         (if truthy flag
          then \<exists>r c. filter (\<lambda>r. fonte r = fonte_ia) saida = [r] \<and>
                 dict_get predicao_ml (ustr ''confianca'') (PInt 0) = Inr c \<and> impacto r = c \<and>
                 gravidade r = (if double_0_8 \<le> valor_numerico c then ustr ''alta''
                                else if double_0_6 \<le> valor_numerico c then ustr ''media''
                                else ustr ''baixa'')
          else filter (\<lambda>r. fonte r = fonte_ia) saida = []))) \<and>
   (dict_get validacao (ustr ''erros'') (PList []) = Inr (PList es) \<and>
    (\<forall>e\<in>set es. hashable e) \<and>
    dict_get predicao_ml (ustr ''is_fraudulento'') PNone = Inr sinal \<and>
    (truthy sinal \<longrightarrow>
       (\<exists>c x t fu n. dict_get predicao_ml (ustr ''confianca'') (PInt 0) = Inr c \<and> numerico c \<and>
          py_mul100 c = Inr x \<and> formatar_1f amb x = Inr t \<and>
          dict_get predicao_ml (ustr ''features_usadas'') (PDict []) = Inr fu \<and>
          py_len fu = Inr n)) \<longrightarrow>
      (\<exists>saida'. coletar_razoes amb validacao predicao_ml = Inr saida')) \<and>
   gravidade_ml (PFloat double_0_8) = Inr (ustr ''alta'') \<and>
   gravidade_ml (PFloat double_0_6) = Inr (ustr ''media'')"
  using sinais_das_razoes_coletadas[of amb validacao predicao_ml saida]
    coletar_razoes_total[of validacao es predicao_ml sinal amb] limites_dos_floats(3,4)
  by blast

theorem sinais_por_fonte_witness:
  "coletar_razoes amb_exemplo validacao_exemplo predicao_exemplo = Inr razoes_exemplo \<and>
   dict_get validacao_exemplo (ustr ''erros'') (PList [])
     = Inr (PList [PStr (ustr ''Valor inconsistente''), PStr (ustr ''CNPJ ausente'')]) \<and>
   hashable (PStr (ustr ''Valor inconsistente'')) \<and> hashable (PStr (ustr ''CNPJ ausente'')) \<and>
   dict_get predicao_exemplo (ustr ''is_fraudulento'') PNone = Inr (PBool True) \<and>
   dict_get predicao_exemplo (ustr ''confianca'') (PInt 0) = Inr (PFloat (7 / 8)) \<and>
   numerico (PFloat (7 / 8)) \<and>
   (\<exists>ev erros flag.
      dict_get validacao_exemplo (ustr ''erros'') (PList []) = Inr ev \<and> py_iter ev = Inr erros \<and>
      dict_get predicao_exemplo (ustr ''is_fraudulento'') PNone = Inr flag \<and>
      list_all2 (\<lambda>e r. razao_febraban e = Inr r \<and> gravidade r = ustr ''critica'' \<and> impacto r = PFloat 1)
        erros (filter (\<lambda>r. fonte r = fonte_febraban) razoes_exemplo) \<and>
      length (filter (\<lambda>r. gravidade r = ustr ''critica'') razoes_exemplo) = length erros \<and>
      (if truthy flag
       then \<exists>r c. filter (\<lambda>r. fonte r = fonte_ia) razoes_exemplo = [r] \<and>
              dict_get predicao_exemplo (ustr ''confianca'') (PInt 0) = Inr c \<and> impacto r = c \<and>
              gravidade r = (if double_0_8 \<le> valor_numerico c then ustr ''alta''
                             else if double_0_6 \<le> valor_numerico c then ustr ''media''
                             else ustr ''baixa'')
       else filter (\<lambda>r. fonte r = fonte_ia) razoes_exemplo = []))"
proof -
  have h: "coletar_razoes amb_exemplo validacao_exemplo predicao_exemplo = Inr razoes_exemplo"
    by (simp add: coletar_razoes_def py_sort_reverse_def chave_ordenacao_def ordem_gravidade_def
        razoes_coletadas_def validacao_exemplo_def predicao_exemplo_def razoes_exemplo_def
        amb_exemplo_def razao_febraban_def traduzir_erro_def TRADUCOES_ERROS_def CATEGORIAS_def
        categoria_padrao_ml_def razao_ml_def gravidade_ml_def double_0_8_def double_0_6_def ustr_def
        Let_def fonte_febraban_def
        fonte_ia_def)
  have g: "dict_get validacao_exemplo (ustr ''erros'') (PList [])
     = Inr (PList [PStr (ustr ''Valor inconsistente''), PStr (ustr ''CNPJ ausente'')])"
    "hashable (PStr (ustr ''Valor inconsistente''))" "hashable (PStr (ustr ''CNPJ ausente''))"
    "dict_get predicao_exemplo (ustr ''is_fraudulento'') PNone = Inr (PBool True)"
    "dict_get predicao_exemplo (ustr ''confianca'') (PInt 0) = Inr (PFloat (7 / 8))"
    "numerico (PFloat (7 / 8))"
    by (simp_all add: validacao_exemplo_def predicao_exemplo_def ustr_eq_iff)
  from sinais_por_fonte[of amb_exemplo validacao_exemplo predicao_exemplo razoes_exemplo] h
  have "\<exists>ev erros flag.
      dict_get validacao_exemplo (ustr ''erros'') (PList []) = Inr ev \<and> py_iter ev = Inr erros \<and>
      dict_get predicao_exemplo (ustr ''is_fraudulento'') PNone = Inr flag \<and>
      list_all2 (\<lambda>e r. razao_febraban e = Inr r \<and> gravidade r = ustr ''critica'' \<and> impacto r = PFloat 1)
        erros (filter (\<lambda>r. fonte r = fonte_febraban) razoes_exemplo) \<and>
      length (filter (\<lambda>r. gravidade r = ustr ''critica'') razoes_exemplo) = length erros \<and>
      (if truthy flag
       then \<exists>r c. filter (\<lambda>r. fonte r = fonte_ia) razoes_exemplo = [r] \<and>
              dict_get predicao_exemplo (ustr ''confianca'') (PInt 0) = Inr c \<and> impacto r = c \<and>
              gravidade r = (if double_0_8 \<le> valor_numerico c then ustr ''alta''
                             else if double_0_6 \<le> valor_numerico c then ustr ''media''
                             else ustr ''baixa'')
       else filter (\<lambda>r. fonte r = fonte_ia) razoes_exemplo = [])"
    by (rule conjunct1[THEN mp])
  with h g show ?thesis by (intro conjI)
qed

text \<open>
  C1. For every input, well-formed or malformed, \<open>gerar_explicacao_completa\<close> returns
  an explanation and never an exception. When a step of the body raises, the result is the
  fallback explanation: the status of the verdict, fixed summary texts, no advanced view, an
  empty list of signals, the risk level \<open>DESCONHECIDO\<close> and a fixed error message.
\<close>

theorem sintese_sempre_devolve_veredito:
  "(\<exists>e. gerar_explicacao_completa amb f v p d = Inr e) \<and>
   (\<forall>err. explicacao_corpo amb f v p d = Inl err \<longrightarrow>
      gerar_explicacao_completa amb f v p d = Inr (gerar_explicacao_fallback f)) \<and>
   (\<forall>e. explicacao_corpo amb f v p d = Inr e \<longrightarrow> gerar_explicacao_completa amb f v p d = Inr e) \<and>
   status (simples (gerar_explicacao_fallback f))
     = (if truthy f then ustr ''FRAUDULENTO'' else ustr ''V'' @ [193] @ ustr ''LIDO'') \<and>
   resumo (simples (gerar_explicacao_fallback f)) = ustr ''An'' @ [225] @ ustr ''lise conclu'' @ [237] @ ustr ''da'' \<and>
   acao_recomendada (simples (gerar_explicacao_fallback f)) = ustr ''Verifique os detalhes'' \<and>
   confianca (simples (gerar_explicacao_fallback f)) = None \<and>
   principal_motivo (simples (gerar_explicacao_fallback f)) = None \<and>
   ms_emoji (simples (gerar_explicacao_fallback f)) = None \<and>
   avancado (gerar_explicacao_fallback f) = None \<and>
   razoes (gerar_explicacao_fallback f) = [] \<and>
   gerado_em (gerar_explicacao_fallback f) = None \<and>
   nivel_risco (recomendacao (gerar_explicacao_fallback f)) = ustr ''DESCONHECIDO'' \<and>
   mensagem (recomendacao (gerar_explicacao_fallback f))
     = ustr ''Erro ao gerar explica'' @ [231, 227] @ ustr ''o detalhada'' \<and>
   emoji (recomendacao (gerar_explicacao_fallback f)) = None \<and>
   rec_cor (recomendacao (gerar_explicacao_fallback f)) = None \<and>
   acao_principal (recomendacao (gerar_explicacao_fallback f)) = None \<and>
   proximos_passos (recomendacao (gerar_explicacao_fallback f)) = None"
  by (cases "explicacao_corpo amb f v p d")
     (simp_all add: gerar_explicacao_completa_def gerar_explicacao_fallback_def)

theorem sintese_sempre_devolve_veredito_witness:
  "explicacao_corpo amb_exemplo (PBool False) PNone (PDict []) (PDict []) = Inl AttributeError \<and>
   gerar_explicacao_completa amb_exemplo (PBool False) PNone (PDict []) (PDict [])
     = Inr (gerar_explicacao_fallback (PBool False)) \<and>
   razoes (gerar_explicacao_fallback (PBool False)) = [] \<and>
   nivel_risco (recomendacao (gerar_explicacao_fallback (PBool False))) = ustr ''DESCONHECIDO''"
proof -
  have h: "explicacao_corpo amb_exemplo (PBool False) PNone (PDict []) (PDict []) = Inl AttributeError"
    by (simp add: explicacao_corpo_def determinar_nivel_risco_def coletar_razoes_def razoes_coletadas_def)
  from sintese_sempre_devolve_veredito[of amb_exemplo "PBool False" PNone "PDict []" "PDict []"] h
  show ?thesis by blast
qed

text \<open>
  C2, as amended. When \<open>is_fraudulento\<close> is false, \<open>determinar_nivel_risco\<close> yields
  \<open>BAIXO\<close> whatever the score is, and an explanation whose synthesis completes reports the
  risk level \<open>BAIXO\<close>. When the synthesis falls back, the explanation reports
  \<open>DESCONHECIDO\<close> instead; the counterexample is such an input, with a score of \<open>None\<close>.
\<close>

theorem nao_fraude_relata_baixo_ou_desconhecido:
  assumes "\<not> truthy f"
  shows "determinar_nivel_risco score f = Inr (ustr ''BAIXO'') \<and>
         (\<forall>e. explicacao_corpo amb f v p d = Inr e \<longrightarrow>
            gerar_explicacao_completa amb f v p d = Inr e \<and>
            nivel_risco (recomendacao e) = ustr ''BAIXO'') \<and>
         (\<forall>err. explicacao_corpo amb f v p d = Inl err \<longrightarrow>
            (\<exists>e. gerar_explicacao_completa amb f v p d = Inr e \<and>
                 nivel_risco (recomendacao e) = ustr ''DESCONHECIDO''))"
  using assms
  by (auto simp: determinar_nivel_risco_def gerar_explicacao_completa_def explicacao_corpo_def
      bind_r_Inr_iff gerar_recomendacao_def recomendacao_baixo_def gerar_explicacao_fallback_def)

theorem nao_fraude_relata_baixo_ou_desconhecido_witness:
  "\<not> truthy (PBool False) \<and>
   (\<exists>e. explicacao_corpo amb_exemplo (PBool False) validacao_valida predicao_score_baixo (PDict []) = Inr e \<and>
        gerar_explicacao_completa amb_exemplo (PBool False) validacao_valida predicao_score_baixo (PDict []) = Inr e \<and>
        nivel_risco (recomendacao e) = ustr ''BAIXO'')"
proof -
  have t: "\<not> truthy (PBool False)" by simp
  have "\<exists>e. explicacao_corpo amb_exemplo (PBool False) validacao_valida predicao_score_baixo (PDict []) = Inr e"
    by (simp add: avaliar amb_exemplo_def validacao_valida_def predicao_score_baixo_def)
  with nao_fraude_relata_baixo_ou_desconhecido[OF t, of _ amb_exemplo validacao_valida predicao_score_baixo "PDict []"] t
  show ?thesis by blast
qed

theorem nao_fraude_desconhecido_counterexample:
  "map_sum id (\<lambda>e. (status (simples e), nivel_risco (recomendacao e)))
     (gerar_explicacao_completa amb_exemplo (PBool False) validacao_valida predicao_sem_score (PDict []))
   = Inr (ustr ''V'' @ [193] @ ustr ''LIDO'', ustr ''DESCONHECIDO'') \<and>
   ustr ''DESCONHECIDO'' \<noteq> ustr ''BAIXO''"
  by (simp add: avaliar amb_exemplo_def validacao_valida_def predicao_sem_score_def)



text \<open>
  C4, as amended. A synthesis that completes carries one of four fixed templates, chosen by
  the pair (is the verdict fraudulent, computed risk level): the low template when not
  fraudulent, and for a fraudulent verdict the critical template at \<open>CRITICO\<close>, the high
  one at \<open>ALTO\<close> and the medium one otherwise, which includes \<open>BAIXO\<close>. A synthesis that
  falls back carries the fallback recommendation, with the level \<open>DESCONHECIDO\<close>, which is
  none of the four. Two syntheses that both complete or both fall back, with the same fraud
  flag and the same computed level, carry the same recommendation. The counterexample has
  two inputs with the same computed level \<open>BAIXO\<close> and different recommendations, one of
  them labelled with the medium level.
\<close>

theorem recomendacao_por_fraude_e_nivel:
  "(\<exists>e. gerar_explicacao_completa amb1 f1 v1 p1 d1 = Inr e \<and>
       (if isl (explicacao_corpo amb1 f1 v1 p1 d1)
        then recomendacao e = recomendacao (gerar_explicacao_fallback f1)
        else \<exists>n. nivel_risco_calculado f1 p1 = Inr n \<and>
               (n = ustr ''BAIXO'' \<or> n = ustr ''MEDIO'' \<or> n = ustr ''ALTO'' \<or> n = ustr ''CRITICO'') \<and>
               (\<not> truthy f1 \<longrightarrow> n = ustr ''BAIXO'') \<and>
               recomendacao e =
                 (if \<not> truthy f1 then recomendacao_baixo
                  else if n = ustr ''CRITICO'' then recomendacao_critico
                  else if n = ustr ''ALTO'' then recomendacao_alto
                  else recomendacao_medio))) \<and>
   (isl (explicacao_corpo amb1 f1 v1 p1 d1) = isl (explicacao_corpo amb2 f2 v2 p2 d2) \<and>
    truthy f1 = truthy f2 \<and> nivel_risco_calculado f1 p1 = nivel_risco_calculado f2 p2 \<longrightarrow>
      map_sum id recomendacao (gerar_explicacao_completa amb1 f1 v1 p1 d1)
    = map_sum id recomendacao (gerar_explicacao_completa amb2 f2 v2 p2 d2)) \<and>
   nivel_risco recomendacao_baixo = ustr ''BAIXO'' \<and>
   nivel_risco recomendacao_medio = ustr ''M'' @ [201] @ ustr ''DIO'' \<and>
   nivel_risco recomendacao_alto = ustr ''ALTO'' \<and>
   nivel_risco recomendacao_critico = ustr ''CR'' @ [205] @ ustr ''TICO'' \<and>
   nivel_risco (recomendacao (gerar_explicacao_fallback f1)) = ustr ''DESCONHECIDO'' \<and>
   recomendacao (gerar_explicacao_fallback f1) \<noteq> recomendacao_baixo \<and>
   recomendacao (gerar_explicacao_fallback f1) \<noteq> recomendacao_medio \<and>
   recomendacao (gerar_explicacao_fallback f1) \<noteq> recomendacao_alto \<and>
   recomendacao (gerar_explicacao_fallback f1) \<noteq> recomendacao_critico"
proof -
  have l: "nivel_risco recomendacao_baixo = ustr ''BAIXO''"
     "nivel_risco recomendacao_medio = ustr ''M'' @ [201] @ ustr ''DIO''"
     "nivel_risco recomendacao_alto = ustr ''ALTO''"
     "nivel_risco recomendacao_critico = ustr ''CR'' @ [205] @ ustr ''TICO''"
     "nivel_risco (recomendacao (gerar_explicacao_fallback f1)) = ustr ''DESCONHECIDO''"
    by (simp_all add: recomendacao_baixo_def recomendacao_medio_def recomendacao_alto_def
        recomendacao_critico_def gerar_explicacao_fallback_def)
  have ne: "ustr ''DESCONHECIDO'' \<noteq> ustr ''BAIXO''"
    "ustr ''DESCONHECIDO'' \<noteq> ustr ''M'' @ [201] @ ustr ''DIO''"
    "ustr ''DESCONHECIDO'' \<noteq> ustr ''ALTO''"
    "ustr ''DESCONHECIDO'' \<noteq> ustr ''CR'' @ [205] @ ustr ''TICO''"
    by (simp_all add: ustr_def)
  have d: "recomendacao (gerar_explicacao_fallback f1) \<noteq> recomendacao_baixo"
    "recomendacao (gerar_explicacao_fallback f1) \<noteq> recomendacao_medio"
    "recomendacao (gerar_explicacao_fallback f1) \<noteq> recomendacao_alto"
    "recomendacao (gerar_explicacao_fallback f1) \<noteq> recomendacao_critico"
    using l ne by metis+
  have tab: "\<And>amb f v p d e. explicacao_corpo amb f v p d = Inr e \<Longrightarrow>
     \<exists>n. nivel_risco_calculado f p = Inr n \<and>
         (n = ustr ''BAIXO'' \<or> n = ustr ''MEDIO'' \<or> n = ustr ''ALTO'' \<or> n = ustr ''CRITICO'') \<and>
         (\<not> truthy f \<longrightarrow> n = ustr ''BAIXO'') \<and>
         recomendacao e =
           (if \<not> truthy f then recomendacao_baixo
            else if n = ustr ''CRITICO'' then recomendacao_critico
            else if n = ustr ''ALTO'' then recomendacao_alto
            else recomendacao_medio)"
  proof -
    fix amb f v p d e
    assume h: "explicacao_corpo amb f v p d = Inr e"
    from explicacao_corpo_recomendacao[OF h] obtain s n where
      a: "dict_get p (ustr ''score_fraude'') (PInt 0) = Inr s" "determinar_nivel_risco s f = Inr n"
         "recomendacao e = gerar_recomendacao f n s" by blast
    have c: "nivel_risco_calculado f p = Inr n" using a by (simp add: nivel_risco_calculado_def)
    have b: "\<not> truthy f \<longrightarrow> n = ustr ''BAIXO''"
      using a(2) by (auto simp: determinar_nivel_risco_def)
    have r: "recomendacao e =
           (if \<not> truthy f then recomendacao_baixo
            else if n = ustr ''CRITICO'' then recomendacao_critico
            else if n = ustr ''ALTO'' then recomendacao_alto
            else recomendacao_medio)"
      using a(3) by (simp add: gerar_recomendacao_def)
    from c determinar_nivel_risco_valores[OF a(2)] b r
    show "\<exists>n. nivel_risco_calculado f p = Inr n \<and>
         (n = ustr ''BAIXO'' \<or> n = ustr ''MEDIO'' \<or> n = ustr ''ALTO'' \<or> n = ustr ''CRITICO'') \<and>
         (\<not> truthy f \<longrightarrow> n = ustr ''BAIXO'') \<and>
         recomendacao e =
           (if \<not> truthy f then recomendacao_baixo
            else if n = ustr ''CRITICO'' then recomendacao_critico
            else if n = ustr ''ALTO'' then recomendacao_alto
            else recomendacao_medio)" by blast
  qed
  have one: "\<exists>e. gerar_explicacao_completa amb1 f1 v1 p1 d1 = Inr e \<and>
       (if isl (explicacao_corpo amb1 f1 v1 p1 d1)
        then recomendacao e = recomendacao (gerar_explicacao_fallback f1)
        else \<exists>n. nivel_risco_calculado f1 p1 = Inr n \<and>
               (n = ustr ''BAIXO'' \<or> n = ustr ''MEDIO'' \<or> n = ustr ''ALTO'' \<or> n = ustr ''CRITICO'') \<and>
               (\<not> truthy f1 \<longrightarrow> n = ustr ''BAIXO'') \<and>
               recomendacao e =
                 (if \<not> truthy f1 then recomendacao_baixo
                  else if n = ustr ''CRITICO'' then recomendacao_critico
                  else if n = ustr ''ALTO'' then recomendacao_alto
                  else recomendacao_medio))"
  proof (cases "explicacao_corpo amb1 f1 v1 p1 d1")
    case (Inl err)
    then show ?thesis by (simp add: gerar_explicacao_completa_def)
  next
    case (Inr e)
    from tab[OF Inr] Inr show ?thesis by (simp add: gerar_explicacao_completa_def)
  qed
  have two: "isl (explicacao_corpo amb1 f1 v1 p1 d1) = isl (explicacao_corpo amb2 f2 v2 p2 d2) \<and>
    truthy f1 = truthy f2 \<and> nivel_risco_calculado f1 p1 = nivel_risco_calculado f2 p2 \<longrightarrow>
      map_sum id recomendacao (gerar_explicacao_completa amb1 f1 v1 p1 d1)
    = map_sum id recomendacao (gerar_explicacao_completa amb2 f2 v2 p2 d2)"
  proof (cases "explicacao_corpo amb1 f1 v1 p1 d1"; cases "explicacao_corpo amb2 f2 v2 p2 d2")
    fix e1 e2
    assume h1: "explicacao_corpo amb1 f1 v1 p1 d1 = Inr e1"
      and h2: "explicacao_corpo amb2 f2 v2 p2 d2 = Inr e2"
    from tab[OF h1] tab[OF h2] h1 h2 show ?thesis
      by (auto simp: gerar_explicacao_completa_def)
  qed (simp_all add: gerar_explicacao_completa_def gerar_explicacao_fallback_def)
  from one two l d show ?thesis by (intro conjI)
qed

theorem recomendacao_por_fraude_e_nivel_witness:
  "\<not> isl (explicacao_corpo amb_exemplo (PBool True) validacao_exemplo predicao_exemplo (PDict [])) \<and>
   \<not> isl (explicacao_corpo amb_exemplo_tarde (PBool True) validacao_codigo_barras predicao_exemplo (PDict [])) \<and>
   nivel_risco_calculado (PBool True) predicao_exemplo = Inr (ustr ''CRITICO'') \<and>
   map_sum id recomendacao
     (gerar_explicacao_completa amb_exemplo (PBool True) validacao_exemplo predicao_exemplo (PDict []))
     = Inr recomendacao_critico \<and>
   map_sum id recomendacao
     (gerar_explicacao_completa amb_exemplo (PBool True) validacao_exemplo predicao_exemplo (PDict []))
   = map_sum id recomendacao
     (gerar_explicacao_completa amb_exemplo_tarde (PBool True) validacao_codigo_barras predicao_exemplo (PDict [])) \<and>
   isl (explicacao_corpo amb_exemplo (PBool True) PNone predicao_exemplo (PDict [])) \<and>
   map_sum id recomendacao
     (gerar_explicacao_completa amb_exemplo (PBool True) PNone predicao_exemplo (PDict []))
     = Inr (recomendacao (gerar_explicacao_fallback (PBool True)))"
proof -
  have h1: "\<not> isl (explicacao_corpo amb_exemplo (PBool True) validacao_exemplo predicao_exemplo (PDict []))"
    by (simp add: avaliar amb_exemplo_def validacao_exemplo_def predicao_exemplo_def)
  have h2: "\<not> isl (explicacao_corpo amb_exemplo_tarde (PBool True) validacao_codigo_barras predicao_exemplo (PDict []))"
    by (simp add: avaliar amb_exemplo_def amb_exemplo_tarde_def validacao_codigo_barras_def predicao_exemplo_def)
  have h3: "isl (explicacao_corpo amb_exemplo (PBool True) PNone predicao_exemplo (PDict []))"
    by (simp add: explicacao_corpo_def determinar_nivel_risco_def coletar_razoes_def
        razoes_coletadas_def predicao_exemplo_def ustr_eq_iff)
  have n: "nivel_risco_calculado (PBool True) predicao_exemplo = Inr (ustr ''CRITICO'')"
    by (simp add: nivel_risco_calculado_def determinar_nivel_risco_def predicao_exemplo_def ustr_eq_iff)
  note t1 = recomendacao_por_fraude_e_nivel[of amb_exemplo "PBool True" validacao_exemplo predicao_exemplo "PDict []"
      amb_exemplo_tarde "PBool True" validacao_codigo_barras predicao_exemplo "PDict []"]
  note t3 = recomendacao_por_fraude_e_nivel[of amb_exemplo "PBool True" PNone predicao_exemplo "PDict []"
      amb_exemplo "PBool True" PNone predicao_exemplo "PDict []"]
  from t1 h1 n have a: "map_sum id recomendacao
     (gerar_explicacao_completa amb_exemplo (PBool True) validacao_exemplo predicao_exemplo (PDict []))
     = Inr recomendacao_critico"
    by (auto simp: ustr_eq_iff)
  from t1 h1 h2 have b: "map_sum id recomendacao
     (gerar_explicacao_completa amb_exemplo (PBool True) validacao_exemplo predicao_exemplo (PDict []))
   = map_sum id recomendacao
     (gerar_explicacao_completa amb_exemplo_tarde (PBool True) validacao_codigo_barras predicao_exemplo (PDict []))"
    by simp
  from t3 h3 have c: "map_sum id recomendacao
     (gerar_explicacao_completa amb_exemplo (PBool True) PNone predicao_exemplo (PDict []))
     = Inr (recomendacao (gerar_explicacao_fallback (PBool True)))"
    by auto
  from h1 h2 n a b h3 c show ?thesis by (intro conjI)
qed

theorem recomendacao_nao_depende_so_do_nivel_counterexample:
  "nivel_risco_calculado (PBool False) predicao_score_baixo = Inr (ustr ''BAIXO'') \<and>
   nivel_risco_calculado (PBool True) predicao_score_zero = Inr (ustr ''BAIXO'') \<and>
   map_sum id recomendacao
     (gerar_explicacao_completa amb_exemplo (PBool False) validacao_valida predicao_score_baixo (PDict []))
     = Inr recomendacao_baixo \<and>
   map_sum id recomendacao
     (gerar_explicacao_completa amb_exemplo (PBool True) validacao_codigo_barras predicao_score_zero (PDict []))
     = Inr recomendacao_medio \<and>
   recomendacao_baixo \<noteq> recomendacao_medio \<and>
   nivel_risco recomendacao_medio \<noteq> nivel_risco recomendacao_baixo"
proof -
  have a: "nivel_risco_calculado (PBool False) predicao_score_baixo = Inr (ustr ''BAIXO'')"
    "nivel_risco_calculado (PBool True) predicao_score_zero = Inr (ustr ''BAIXO'')"
    by (simp_all add: nivel_risco_calculado_def determinar_nivel_risco_def predicao_score_baixo_def
        predicao_score_zero_def ustr_eq_iff)
  have b: "map_sum id recomendacao
     (gerar_explicacao_completa amb_exemplo (PBool False) validacao_valida predicao_score_baixo (PDict []))
     = Inr recomendacao_baixo"
    by (simp add: avaliar amb_exemplo_def validacao_valida_def predicao_score_baixo_def)
  have c: "map_sum id recomendacao
     (gerar_explicacao_completa amb_exemplo (PBool True) validacao_codigo_barras predicao_score_zero (PDict []))
     = Inr recomendacao_medio"
    by (simp add: avaliar amb_exemplo_def validacao_codigo_barras_def predicao_score_zero_def)
  have d: "nivel_risco recomendacao_medio \<noteq> nivel_risco recomendacao_baixo"
    by (simp add: recomendacao_medio_def recomendacao_baixo_def ustr_def)
  then have e: "recomendacao_baixo \<noteq> recomendacao_medio" by auto
  from a b c d e show ?thesis by blast
qed

text \<open>
  C9, as amended. With the same four arguments and the same formatting functions, two
  syntheses whose interpreters hash alike agree in every field but the timestamp; when the
  hash functions differ, they still agree in every field but the timestamp and the
  \<open>impacto\<close> labels of the important features. The counterexample has two hash functions
  under which the label of one feature differs.
\<close>

theorem sintese_deterministica_no_mesmo_processo:
  assumes "formatar_1f amb1 = formatar_1f amb2" "formatar_int amb1 = formatar_int amb2"
  shows "(py_hash amb1 = py_hash amb2 \<longrightarrow>
            map_sum id sem_gerado_em (gerar_explicacao_completa amb1 f v p d)
          = map_sum id sem_gerado_em (gerar_explicacao_completa amb2 f v p d)) \<and>
         map_sum id (\<lambda>e. sem_rotulos_impacto (sem_gerado_em e)) (gerar_explicacao_completa amb1 f v p d)
       = map_sum id (\<lambda>e. sem_rotulos_impacto (sem_gerado_em e)) (gerar_explicacao_completa amb2 f v p d)"
  using completa_de_corpo[OF explicacao_corpo_amb[OF assms]]
    completa_de_corpo[OF explicacao_corpo_mesmo_hash[OF assms]]
  by blast

theorem sintese_deterministica_no_mesmo_processo_witness:
  "formatar_1f amb_exemplo = formatar_1f amb_exemplo_tarde \<and>
   formatar_int amb_exemplo = formatar_int amb_exemplo_tarde \<and>
   py_hash amb_exemplo = py_hash amb_exemplo_tarde \<and>
   utcnow_iso amb_exemplo \<noteq> utcnow_iso amb_exemplo_tarde \<and>
   map_sum id sem_gerado_em
     (gerar_explicacao_completa amb_exemplo (PBool True) validacao_exemplo predicao_exemplo (PDict []))
   = map_sum id sem_gerado_em
     (gerar_explicacao_completa amb_exemplo_tarde (PBool True) validacao_exemplo predicao_exemplo (PDict []))"
proof -
  have a: "formatar_1f amb_exemplo = formatar_1f amb_exemplo_tarde"
    and b: "formatar_int amb_exemplo = formatar_int amb_exemplo_tarde"
    and c: "py_hash amb_exemplo = py_hash amb_exemplo_tarde"
    and d: "utcnow_iso amb_exemplo \<noteq> utcnow_iso amb_exemplo_tarde"
    by (simp_all add: amb_exemplo_def amb_exemplo_tarde_def ustr_eq_iff)
  from sintese_deterministica_no_mesmo_processo[OF a b, of "PBool True" validacao_exemplo predicao_exemplo "PDict []"]
    a b c d show ?thesis by blast
qed

theorem rotulos_de_impacto_dependem_do_hash_counterexample:
  "map_sum id sem_gerado_em
     (gerar_explicacao_completa amb_exemplo (PBool False) validacao_valida predicao_com_features (PDict []))
   \<noteq> map_sum id sem_gerado_em
     (gerar_explicacao_completa amb_exemplo_alto (PBool False) validacao_valida predicao_com_features (PDict []))"
  by (simp add: avaliar sem_gerado_em_def amb_exemplo_def amb_exemplo_alto_def validacao_valida_def
      predicao_com_features_def)

text \<open>
  C10. A validation error whose category is not a key of \<open>CATEGORIAS\<close> yields a signal
  that keeps that category, which is then \<open>outros\<close>, shows the name, icon and colour of
  the category \<open>padrao_ml\<close>, and has the raw error as its title, its simple description
  and its advanced description. Every error string that \<open>TRADUCOES_ERROS\<close> does not know
  is such an error.
\<close>

theorem categoria_ausente_usa_padrao_ml:
  "(razao_febraban erro = Inr r \<and> map_of CATEGORIAS (categoria r) = None \<longrightarrow>
      categoria r = ustr ''outros'' \<and>
      categoria_nome r = ustr ''Padr'' @ [227] @ ustr ''o Detectado por IA'' \<and>
      icone r = [129302] \<and> cor r = ustr ''purple'' \<and>
      titulo r = erro \<and> descricao_simples r = erro \<and> descricao_avancada r = erro) \<and>
   (map_of TRADUCOES_ERROS s = None \<longrightarrow>
      (\<exists>r'. razao_febraban (PStr s) = Inr r' \<and> categoria r' = ustr ''outros'' \<and>
            map_of CATEGORIAS (categoria r') = None))"
proof (rule conjI; rule impI)
  assume h: "razao_febraban erro = Inr r \<and> map_of CATEGORIAS (categoria r) = None"
  then have r: "razao_febraban erro = Inr r" and n: "map_of CATEGORIAS (categoria r) = None"
    by simp_all
  from razao_febraban_de_traducao[OF r] obtain t where
    tt: "traduzir_erro erro = Inr t \<and> categoria r = tr_categoria t \<and>
             titulo r = tr_simples t \<and> descricao_simples r = tr_simples t \<and>
             descricao_avancada r = tr_avancado t \<and>
             (map_of CATEGORIAS (tr_categoria t) = None \<longrightarrow>
                categoria_nome r = ci_nome categoria_padrao_ml \<and>
                icone r = ci_icone categoria_padrao_ml \<and> cor r = ci_cor categoria_padrao_ml)" ..
  from tt have t: "traduzir_erro erro = Inr t" and c: "categoria r = tr_categoria t" and
    f: "titulo r = tr_simples t" "descricao_simples r = tr_simples t"
       "descricao_avancada r = tr_avancado t" and
    p: "map_of CATEGORIAS (tr_categoria t) = None \<longrightarrow>
          categoria_nome r = ci_nome categoria_padrao_ml \<and>
          icone r = ci_icone categoria_padrao_ml \<and> cor r = ci_cor categoria_padrao_ml"
    by simp_all
  have "\<not> (\<exists>s'. (s', t) \<in> set TRADUCOES_ERROS)"
  proof
    assume "\<exists>s'. (s', t) \<in> set TRADUCOES_ERROS"
    then obtain s' where "(s', t) \<in> set TRADUCOES_ERROS" ..
    from categorias_das_traducoes[OF this] n c show False by simp
  qed
  with traduzir_erro_casos[OF t]
  have td: "t = \<lparr>tr_simples = erro, tr_avancado = erro, tr_categoria = ustr ''outros''\<rparr>" by blast
  from n c p have disp: "categoria_nome r = ci_nome categoria_padrao_ml"
    "icone r = ci_icone categoria_padrao_ml" "cor r = ci_cor categoria_padrao_ml" by simp_all
  from td c f disp show "categoria r = ustr ''outros'' \<and>
      categoria_nome r = ustr ''Padr'' @ [227] @ ustr ''o Detectado por IA'' \<and>
      icone r = [129302] \<and> cor r = ustr ''purple'' \<and>
      titulo r = erro \<and> descricao_simples r = erro \<and> descricao_avancada r = erro"
    by (simp add: categoria_padrao_ml_def)
next
  assume "map_of TRADUCOES_ERROS s = None"
  then show "\<exists>r'. razao_febraban (PStr s) = Inr r' \<and> categoria r' = ustr ''outros'' \<and>
            map_of CATEGORIAS (categoria r') = None"
    by (simp add: razao_febraban_def traduzir_erro_def Let_def outros_fora_de_categorias)
qed


theorem categoria_ausente_usa_padrao_ml_witness:
  "map_of TRADUCOES_ERROS (ustr ''CNPJ ausente'') = None \<and>
   (\<exists>r. razao_febraban (PStr (ustr ''CNPJ ausente'')) = Inr r \<and>
        map_of CATEGORIAS (categoria r) = None \<and>
        categoria r = ustr ''outros'' \<and>
        categoria_nome r = ustr ''Padr'' @ [227] @ ustr ''o Detectado por IA'' \<and>
        icone r = [129302] \<and> cor r = ustr ''purple'' \<and>
        titulo r = PStr (ustr ''CNPJ ausente'') \<and>
        descricao_simples r = PStr (ustr ''CNPJ ausente'') \<and>
        descricao_avancada r = PStr (ustr ''CNPJ ausente''))"
proof -
  have h: "map_of TRADUCOES_ERROS (ustr ''CNPJ ausente'') = None"
    by (simp add: TRADUCOES_ERROS_def ustr_def)
  have "\<exists>r'. razao_febraban (PStr (ustr ''CNPJ ausente'')) = Inr r' \<and> categoria r' = ustr ''outros'' \<and>
            map_of CATEGORIAS (categoria r') = None"
    using categoria_ausente_usa_padrao_ml[of "PStr []" undefined "ustr ''CNPJ ausente''"] h by simp
  then obtain r' where r': "razao_febraban (PStr (ustr ''CNPJ ausente'')) = Inr r'"
    "map_of CATEGORIAS (categoria r') = None" by auto
  have "categoria r' = ustr ''outros'' \<and>
      categoria_nome r' = ustr ''Padr'' @ [227] @ ustr ''o Detectado por IA'' \<and>
      icone r' = [129302] \<and> cor r' = ustr ''purple'' \<and>
      titulo r' = PStr (ustr ''CNPJ ausente'') \<and>
      descricao_simples r' = PStr (ustr ''CNPJ ausente'') \<and>
      descricao_avancada r' = PStr (ustr ''CNPJ ausente'')"
    using categoria_ausente_usa_padrao_ml[of "PStr (ustr ''CNPJ ausente'')" r' "[]"] r' by simp
  with h r' show ?thesis by (intro conjI exI[of _ r']) simp_all
qed

section \<open>Claims about the submission endpoint\<close>

text \<open>
  C7. A submission whose payload is empty or larger than 10 MiB, or whose content type is
  not one of \<open>image/jpeg\<close>, \<open>image/png\<close> and \<open>application/pdf\<close>, fails with an HTTP 400
  that carries the reason of the rejection, and the Job Store and the Work Queue are left
  as they were. A payload of exactly 10 MiB with an allowed content type is not rejected,
  and is answered with status \<open>processing\<close> when the store and the queue accept the writes.
\<close>

theorem submissao_invalida_rejeitada:
  "((length (file_bytes file) = 0 \<or> length (file_bytes file) > 10 * 1024 * 1024 \<or>
     content_type file \<notin> Some ` set allowed_types) \<longrightarrow>
      (\<exists>motivo. analisar_boleto amb file w = (Inl (HTTPException 400 motivo), [w]) \<and>
         motivo = (if content_type file \<notin> Some ` set allowed_types then detalhe_tipo_invalido
                   else if length (file_bytes file) > 10 * 1024 * 1024 then detalhe_muito_grande
                   else detalhe_vazio))) \<and>
   (length (file_bytes file) = 10 * 1024 * 1024 \<and> content_type file \<in> Some ` set allowed_types \<longrightarrow>
      (\<forall>motivo. fst (analisar_boleto amb file w) \<noteq> Inl (HTTPException 400 motivo)) \<and>
      (falha_mongo amb = None \<and> falha_redis amb = None \<and> uuid4 amb \<notin> doc_id ` set (analises w) \<longrightarrow>
         (\<exists>resp w1 w2. analisar_boleto amb file w = (Inr resp, [w, w1, w2]) \<and>
            r_id resp = uuid4 amb \<and> r_status resp = ustr ''processing'' \<and>
            r_fileSize resp = 10 * 1024 * 1024)))"
  by (auto simp: analisar_boleto_def tipo_rejeitado_iff Let_def insert_one_def rpush_def erro_interno_def
      split: option.splits)


theorem submissao_invalida_rejeitada_witness:
  "length (file_bytes arquivo_vazio) = 0 \<and>
   analisar_boleto amb_api_exemplo arquivo_vazio mundo_vazio
     = (Inl (HTTPException 400 detalhe_vazio), [mundo_vazio]) \<and>
   length (file_bytes arquivo_10_mib) = 10 * 1024 * 1024 \<and>
   content_type arquivo_10_mib \<in> Some ` set allowed_types \<and>
   falha_mongo amb_api_exemplo = None \<and> falha_redis amb_api_exemplo = None \<and>
   uuid4 amb_api_exemplo \<notin> doc_id ` set (analises mundo_vazio) \<and>
   (\<exists>resp w1 w2. analisar_boleto amb_api_exemplo arquivo_10_mib mundo_vazio
        = (Inr resp, [mundo_vazio, w1, w2]) \<and>
      r_id resp = uuid4 amb_api_exemplo \<and> r_status resp = ustr ''processing'' \<and>
      r_fileSize resp = 10 * 1024 * 1024)"
proof -
  have a: "length (file_bytes arquivo_vazio) = 0"
    and a': "content_type arquivo_vazio \<in> Some ` set allowed_types"
    by (simp_all add: arquivo_vazio_def allowed_types_def)
  have b: "length (file_bytes arquivo_10_mib) = 10 * 1024 * 1024"
    and c: "content_type arquivo_10_mib \<in> Some ` set allowed_types"
    by (simp_all add: arquivo_10_mib_def allowed_types_def)
  have d: "falha_mongo amb_api_exemplo = None" "falha_redis amb_api_exemplo = None"
    "uuid4 amb_api_exemplo \<notin> doc_id ` set (analises mundo_vazio)"
    by (simp_all add: amb_api_exemplo_def mundo_vazio_def)
  from submissao_invalida_rejeitada[of arquivo_vazio amb_api_exemplo mundo_vazio] a a'
  have e: "analisar_boleto amb_api_exemplo arquivo_vazio mundo_vazio
     = (Inl (HTTPException 400 detalhe_vazio), [mundo_vazio])" by simp
  from submissao_invalida_rejeitada[of arquivo_10_mib amb_api_exemplo mundo_vazio] b c d
  have f: "\<exists>resp w1 w2. analisar_boleto amb_api_exemplo arquivo_10_mib mundo_vazio
        = (Inr resp, [mundo_vazio, w1, w2]) \<and>
      r_id resp = uuid4 amb_api_exemplo \<and> r_status resp = ustr ''processing'' \<and>
      r_fileSize resp = 10 * 1024 * 1024" by simp
  from a e b c d f show ?thesis by blast
qed

text \<open>
  C8. In an accepted submission the document with status \<open>processing\<close> is in the Job Store
  before the work item of the same identifier is pushed: the handler goes through three
  states, the second with the new document and the old queue, the third with the item at
  the tail of the queue. In every state of every run, an item that the handler put on the
  queue has its document in the store, so a queue whose items all have documents keeps that
  property throughout.
\<close>

theorem registro_antes_da_fila:
  "(\<forall>resp tr. analisar_boleto amb file w = (Inr resp, tr) \<longrightarrow>
      (\<exists>doc item w1 w2. tr = [w, w1, w2] \<and>
         analises w1 = analises w @ [doc] \<and> fila w1 = fila w \<and>
         analises w2 = analises w1 \<and> fila w2 = fila w1 @ [item] \<and>
         doc_id doc = uuid4 amb \<and> doc_status doc = ustr ''processing'' \<and>
         analise_id item = uuid4 amb \<and> r_id resp = uuid4 amb)) \<and>
   (\<forall>s\<in>set (snd (analisar_boleto amb file w)). \<forall>item\<in>set (fila s).
      item \<notin> set (fila w) \<longrightarrow>
        (\<exists>doc\<in>set (analises s). doc_id doc = analise_id item \<and> doc_status doc = ustr ''processing'')) \<and>
   ((\<forall>item\<in>set (fila w). \<exists>doc\<in>set (analises w). doc_id doc = analise_id item) \<longrightarrow>
      (\<forall>s\<in>set (snd (analisar_boleto amb file w)). \<forall>item\<in>set (fila s).
         \<exists>doc\<in>set (analises s). doc_id doc = analise_id item))"
proof (intro conjI)
  show "\<forall>resp tr. analisar_boleto amb file w = (Inr resp, tr) \<longrightarrow>
      (\<exists>doc item w1 w2. tr = [w, w1, w2] \<and>
         analises w1 = analises w @ [doc] \<and> fila w1 = fila w \<and>
         analises w2 = analises w1 \<and> fila w2 = fila w1 @ [item] \<and>
         doc_id doc = uuid4 amb \<and> doc_status doc = ustr ''processing'' \<and>
         analise_id item = uuid4 amb \<and> r_id resp = uuid4 amb)"
    by (auto simp: analisar_boleto_def Let_def insert_one_def rpush_def erro_interno_def
        split: option.splits if_splits)
next
  show "\<forall>s\<in>set (snd (analisar_boleto amb file w)). \<forall>item\<in>set (fila s).
      item \<notin> set (fila w) \<longrightarrow>
        (\<exists>doc\<in>set (analises s). doc_id doc = analise_id item \<and> doc_status doc = ustr ''processing'')"
    by (auto simp: analisar_boleto_def Let_def insert_one_def rpush_def erro_interno_def
        split: option.splits if_splits)
next
  show "(\<forall>item\<in>set (fila w). \<exists>doc\<in>set (analises w). doc_id doc = analise_id item) \<longrightarrow>
      (\<forall>s\<in>set (snd (analisar_boleto amb file w)). \<forall>item\<in>set (fila s).
         \<exists>doc\<in>set (analises s). doc_id doc = analise_id item)"
    by (auto simp: analisar_boleto_def Let_def insert_one_def rpush_def erro_interno_def
        split: option.splits if_splits)
qed

theorem registro_antes_da_fila_witness:
  "analisar_boleto amb_api_exemplo arquivo_pequeno mundo_vazio =
     (Inr \<lparr>r_id = uuid4 amb_api_exemplo, r_status = ustr ''processing'',
            r_message = ustr ''Boleto recebido e adicionado '' @ [224] @ ustr '' fila de processamento'',
            r_fileName = Some (ustr ''boleto.jpg''), r_fileSize = 3,
            r_fileType = Some (ustr ''image/jpeg'')\<rparr>,
      [mundo_vazio,
       \<lparr>analises = [\<lparr>doc_id = uuid4 amb_api_exemplo, doc_status = ustr ''processing'',
                      uploadedAt = utcnow amb_api_exemplo, fileType = Some (ustr ''image/jpeg''),
                      fileSize = 3, fileName = Some (ustr ''boleto.jpg'')\<rparr>],
        fila = []\<rparr>,
       \<lparr>analises = [\<lparr>doc_id = uuid4 amb_api_exemplo, doc_status = ustr ''processing'',
                      uploadedAt = utcnow amb_api_exemplo, fileType = Some (ustr ''image/jpeg''),
                      fileSize = 3, fileName = Some (ustr ''boleto.jpg'')\<rparr>],
        fila = [\<lparr>analise_id = uuid4 amb_api_exemplo, file_base64 = ustr ''AA=='',
                  file_type = Some (ustr ''image/jpeg'')\<rparr>]\<rparr>]) \<and>
   (\<exists>doc item w1 w2.
      snd (analisar_boleto amb_api_exemplo arquivo_pequeno mundo_vazio) = [mundo_vazio, w1, w2] \<and>
      analises w1 = analises mundo_vazio @ [doc] \<and> fila w1 = fila mundo_vazio \<and>
      analises w2 = analises w1 \<and> fila w2 = fila w1 @ [item] \<and>
      doc_id doc = uuid4 amb_api_exemplo \<and> doc_status doc = ustr ''processing'' \<and>
      analise_id item = uuid4 amb_api_exemplo)"
proof -
  have h: "analisar_boleto amb_api_exemplo arquivo_pequeno mundo_vazio =
     (Inr \<lparr>r_id = uuid4 amb_api_exemplo, r_status = ustr ''processing'',
            r_message = ustr ''Boleto recebido e adicionado '' @ [224] @ ustr '' fila de processamento'',
            r_fileName = Some (ustr ''boleto.jpg''), r_fileSize = 3,
            r_fileType = Some (ustr ''image/jpeg'')\<rparr>,
      [mundo_vazio,
       \<lparr>analises = [\<lparr>doc_id = uuid4 amb_api_exemplo, doc_status = ustr ''processing'',
                      uploadedAt = utcnow amb_api_exemplo, fileType = Some (ustr ''image/jpeg''),
                      fileSize = 3, fileName = Some (ustr ''boleto.jpg'')\<rparr>],
        fila = []\<rparr>,
       \<lparr>analises = [\<lparr>doc_id = uuid4 amb_api_exemplo, doc_status = ustr ''processing'',
                      uploadedAt = utcnow amb_api_exemplo, fileType = Some (ustr ''image/jpeg''),
                      fileSize = 3, fileName = Some (ustr ''boleto.jpg'')\<rparr>],
        fila = [\<lparr>analise_id = uuid4 amb_api_exemplo, file_base64 = ustr ''AA=='',
                  file_type = Some (ustr ''image/jpeg'')\<rparr>]\<rparr>])"
    by (simp add: analisar_boleto_def Let_def insert_one_def rpush_def amb_api_exemplo_def
        arquivo_pequeno_def mundo_vazio_def allowed_types_def ustr_eq_iff)
  from registro_antes_da_fila[of amb_api_exemplo arquivo_pequeno mundo_vazio] h
  have "\<exists>doc item w1 w2.
      snd (analisar_boleto amb_api_exemplo arquivo_pequeno mundo_vazio) = [mundo_vazio, w1, w2] \<and>
      analises w1 = analises mundo_vazio @ [doc] \<and> fila w1 = fila mundo_vazio \<and>
      analises w2 = analises w1 \<and> fila w2 = fila w1 @ [item] \<and>
      doc_id doc = uuid4 amb_api_exemplo \<and> doc_status doc = ustr ''processing'' \<and>
      analise_id item = uuid4 amb_api_exemplo"
    by (simp only: snd_conv) blast
  with h show ?thesis by (intro conjI)
qed

end
